theory Spec2Isabelle
  imports Complex_Main "HOL-Library.Multiset" "HOL-Library.Sublist"
begin

section \<open>Batch processor: a shallow embedding of \<open>src/index.js\<close>\<close>

text \<open>
  The embedding follows the methods of the class \<open>BatchProcessor\<close>. JavaScript numbers
  that the program uses as integers are \<open>int\<close> or, where they only count loop iterations
  from zero, \<open>nat\<close>; the site numbers, which the user can make arbitrarily large, are doubles
  with their rounding. Strings are
  \<open>string\<close>. Absolute POSIX paths are the lists of their components, so the root
  directory is \<open>[]\<close>, \<open>path.join(d, name)\<close> is \<open>d @ [name]\<close> for a name of one component
  and \<open>path.dirname\<close> is \<open>butlast\<close>. Console output is not modelled.
\<close>

subsection \<open>Errors\<close>

text \<open>One constructor for each \<open>throw\<close> of the source and each library call that can fail.\<close>

datatype error =
    InvalidNameFormat
  | TemplateNotFound
  | ReadJsonFailed
  | TypeError
  | InsufficientEligibleGames
  | TemplatePathMissing
  | MissingTemplateFile "string list"
  | RangeTooSmall
  | ProjectExists
  | CopyFailed
  | ReadFileFailed

subsection \<open>Randomness\<close>

text \<open>
  \<open>Math.random()\<close> is an oracle \<open>rnd\<close>: the value of its \<open>k\<close>-th call is \<open>rnd k\<close>, and
  every function that draws numbers takes the number of calls made so far and returns the
  new number of calls. The language guarantees \<open>0 \<le> Math.random() < 1\<close>, which is
  \<open>unitInterval rnd\<close>. \<open>randomIndex r n\<close> is \<open>Math.floor(r * n)\<close>; the source rounds the
  product to a floating-point number, which is below \<open>n\<close> as the exact product is, so both
  give an index from \<open>0\<close> to \<open>n - 1\<close>.
\<close>

definition unitInterval :: "(nat \<Rightarrow> real) \<Rightarrow> bool" where
  "unitInterval rnd = (\<forall>k. 0 \<le> rnd k \<and> rnd k < 1)"

definition randomIndex :: "real \<Rightarrow> nat \<Rightarrow> nat" where
  "randomIndex r n = nat \<lfloor>r * real n\<rfloor>"

text \<open>
  The destructuring swap \<open>[a[i], a[j]] = [a[j], a[i]]\<close> reads both cells, then writes
  \<open>a[i]\<close>, then \<open>a[j]\<close>.
\<close>

definition swap :: "'a list \<Rightarrow> nat \<Rightarrow> nat \<Rightarrow> 'a list" where
  "swap a i j = a[i := a ! j, j := a ! i]"

text \<open>
  The shuffle loop \<open>for (let i = a.length - 1; i > 0; i--)\<close>, used for the counts and for
  the games. \<open>shuffleLoop rnd k i a\<close> runs the iterations \<open>i, i - 1, \<dots>, 1\<close>. For the empty
  array the source starts at \<open>i = -1\<close> and makes no iteration, as \<open>length a - 1 = 0\<close> does
  here.
\<close>

fun shuffleLoop :: "(nat \<Rightarrow> real) \<Rightarrow> nat \<Rightarrow> nat \<Rightarrow> 'a list \<Rightarrow> 'a list \<times> nat" where
  "shuffleLoop rnd k 0 a = (a, k)"
| "shuffleLoop rnd k (Suc n) a =
     (let i = Suc n;
          j = randomIndex (rnd k) (i + 1)
      in shuffleLoop rnd (Suc k) n (swap a i j))"

definition shuffle :: "(nat \<Rightarrow> real) \<Rightarrow> nat \<Rightarrow> 'a list \<Rightarrow> 'a list \<times> nat" where
  "shuffle rnd k a = shuffleLoop rnd k (length a - 1) a"

subsection \<open>Planning the game counts (\<open>generateProjects\<close>, lines 262-272 and 297)\<close>

text \<open>
  \<open>possibleCounts\<close> is filled by \<open>for (let i = gamesMin; i <= gamesMax; i++)\<close>, which is
  the list \<open>[gamesMin..gamesMax]\<close>; the range check throws; the shuffle follows.
\<close>

definition planCounts ::
  "(nat \<Rightarrow> real) \<Rightarrow> nat \<Rightarrow> int \<Rightarrow> int \<Rightarrow> nat \<Rightarrow> error + (int list \<times> nat)" where
  "planCounts rnd k gamesMin gamesMax totalSitesToCreate =
     (let possibleCounts = [gamesMin..gamesMax]
      in if length possibleCounts < totalSitesToCreate then Inl RangeTooSmall
         else Inr (shuffle rnd k possibleCounts))"

text \<open>
  \<open>possibleCounts[siteIndex]\<close>: a read past the end of a JavaScript array gives
  \<open>undefined\<close>, here \<open>None\<close>.
\<close>

definition countAt :: "int list \<Rightarrow> nat \<Rightarrow> int option" where
  "countAt possibleCounts siteIndex =
     (if siteIndex < length possibleCounts then Some (possibleCounts ! siteIndex) else None)"

subsection \<open>Site numbers and site names\<close>

text \<open>
  A site number is a JavaScript number: a double. Those that occur here are integers or
  \<open>Infinity\<close>; \<open>Finite x\<close> is the number whose exact value is the integer \<open>x\<close>.
  \<open>roundToDouble x\<close> is the double nearest to the natural number \<open>x\<close>, ties going to the
  even significand of 53 bits; from \<open>2^1024\<close> on the result is \<open>Infinity\<close>.
\<close>

datatype number = Finite int | Infinity

fun bits :: "nat \<Rightarrow> nat" where
  "bits n = (if n = 0 then 0 else Suc (bits (n div 2)))"

declare bits.simps [simp del]

definition roundToDouble :: "nat \<Rightarrow> nat" where
  "roundToDouble x =
     (if x \<le> 2 ^ 53 then x
      else
        (let ulp = 2 ^ (bits x - 53);
             q = x div ulp;
             r = x mod ulp
         in if ulp < 2 * r \<or> (2 * r = ulp \<and> odd q) then (q + 1) * ulp else q * ulp))"

definition toNumber :: "int \<Rightarrow> number" where
  "toNumber x =
     (let y = roundToDouble (nat \<bar>x\<bar>)
      in if 2 ^ 1024 \<le> y then Infinity else Finite (sgn x * int y))"

text \<open>
  \<open>a + b\<close> for a number \<open>a\<close> and an integer \<open>b\<close> that is a double itself: the exact sum,
  rounded.
\<close>

definition addNumber :: "number \<Rightarrow> int \<Rightarrow> number" where
  "addNumber a b = (case a of Finite x \<Rightarrow> toNumber (x + b) | Infinity \<Rightarrow> Infinity)"

definition isDigit :: "char \<Rightarrow> bool" where
  "isDigit c = (c \<in> set ''0123456789'')"

text \<open>The value of a decimal digit is its position in \<open>0123456789\<close>.\<close>

definition digitValue :: "char \<Rightarrow> nat" where
  "digitValue c = length (takeWhile (\<lambda>d. d \<noteq> c) ''0123456789'')"

text \<open>
  The integer that a string of decimal digits denotes, and \<open>parseInt\<close> on such a string:
  the number nearest to that integer. (From the 21st significant digit on the language
  lets an implementation read a digit as zero; the integers up to \<open>2^53\<close> have 16 digits.)
\<close>

definition decimalValue :: "string \<Rightarrow> nat" where
  "decimalValue ds = foldl (\<lambda>acc c. 10 * acc + digitValue c) 0 ds"

definition parseInt :: "string \<Rightarrow> number" where
  "parseInt ds = toNumber (int (decimalValue ds))"

text \<open>
  The capture group of \<open>/(\d+)$/\<close>: \<open>$\<close> is the end of the input and the match starts
  at the leftmost position from which only digits follow, so the group is the longest run
  of digits that ends the string. The match fails when that run is empty.
\<close>

definition trailingDigits :: "string \<Rightarrow> string" where
  "trailingDigits s = rev (takeWhile isDigit (rev s))"

definition extractSiteNumber :: "string \<Rightarrow> error + number" where
  "extractSiteNumber siteName =
     (let m = trailingDigits siteName
      in if m = [] then Inl InvalidNameFormat else Inr (parseInt m))"

text \<open>The decimal text of an integer.\<close>

fun digitsOf :: "nat \<Rightarrow> string" where
  "digitsOf n =
     (if n < 10 then [''0123456789'' ! n]
      else digitsOf (n div 10) @ [''0123456789'' ! (n mod 10)])"

declare digitsOf.simps [simp del]

definition decimal :: "int \<Rightarrow> string" where
  "decimal n = (if n < 0 then CHR ''-'' # digitsOf (nat (- n)) else digitsOf (nat n))"

text \<open>
  The text of a number in a template literal \<open>${n}\<close>. Up to \<open>2^53\<close> it is the decimal text
  of the integer. Above, the language prints the integer with the fewest significant
  digits among those that round to the number, the one nearest to the number if there
  are several; the digits that follow are zeros. \<open>candidate x p\<close> looks for it among the
  multiples of \<open>p\<close> next to \<open>x\<close>, and \<open>shortestFrom x j\<close> tries the powers of ten from
  \<open>10^j\<close> down. From \<open>10^21\<close> on the text has an exponent.
\<close>

definition candidate :: "nat \<Rightarrow> nat \<Rightarrow> nat option" where
  "candidate x p =
     (let lo = (x div p) * p;
          hi = lo + p;
          okLo = (roundToDouble lo = x);
          okHi = (roundToDouble hi = x)
      in if okLo \<and> okHi
         then Some (if x - lo < hi - x \<or> (x - lo = hi - x \<and> even (x div p)) then lo else hi)
         else if okLo then Some lo
         else if okHi then Some hi
         else None)"

fun shortestFrom :: "nat \<Rightarrow> nat \<Rightarrow> nat" where
  "shortestFrom x 0 = x"
| "shortestFrom x (Suc j) =
     (case candidate x (10 ^ Suc j) of Some v \<Rightarrow> v | None \<Rightarrow> shortestFrom x j)"

definition shortest :: "nat \<Rightarrow> nat" where
  "shortest x = shortestFrom x (length (digitsOf x) - 1)"

definition exponentForm :: "nat \<Rightarrow> string" where
  "exponentForm v =
     (let ds = digitsOf v;
          s = rev (dropWhile (\<lambda>c. c = CHR ''0'') (rev ds));
          e = ''e+'' @ digitsOf (length ds - 1)
      in if length s = 1 then s @ e else hd s # CHR ''.'' # tl s @ e)"

definition largeText :: "nat \<Rightarrow> string" where
  "largeText x = (let v = shortest x in if v < 10 ^ 21 then digitsOf v else exponentForm v)"

definition numToString :: "number \<Rightarrow> string" where
  "numToString n =
     (case n of
        Infinity \<Rightarrow> ''Infinity''
      | Finite x \<Rightarrow>
          if \<bar>x\<bar> \<le> 2 ^ 53 then decimal x
          else if x < 0 then CHR ''-'' # largeText (nat (- x))
          else largeText (nat x))"

subsection \<open>The file system and the state of the processor\<close>

text \<open>
  A file system maps the paths that exist to a directory or to a file with its text.
  \<open>generatedSites\<close> is the field \<open>this.generatedSites\<close>; \<open>calls\<close> counts the calls of
  \<open>Math.random()\<close> made so far.
\<close>

type_synonym path = "string list"

datatype node = Dir | File string

record site =
  projectName :: string
  path :: path
  domain :: string

record world =
  files :: "path \<Rightarrow> node option"
  calls :: nat
  generatedSites :: "site list"

definition pathExists :: "world \<Rightarrow> path \<Rightarrow> bool" where
  "pathExists w p = (files w p \<noteq> None)"

subsection \<open>\<open>validateProjectNames\<close>\<close>

text \<open>
  The loop \<open>for (let i = 0; i < totalSitesToCreate; i++)\<close> with its array \<open>conflicts\<close>.
  A project name has no \<open>/\<close>, so that \<open>path.join(workspaceRoot, projectName)\<close> adds one
  component. The counter \<open>i\<close> is a number too; it is exact up to \<open>2^53\<close>, and the counts
  of the properties below stay within that.
\<close>

function validateLoop ::
  "world \<Rightarrow> path \<Rightarrow> number \<Rightarrow> nat \<Rightarrow> nat \<Rightarrow> string list \<Rightarrow> string list" where
  "validateLoop w workspaceRoot baseNumber totalSitesToCreate i conflicts =
     (if i < totalSitesToCreate then
        (let projectName = ''site'' @ numToString (addNumber baseNumber (int i));
             projectPath = workspaceRoot @ [projectName]
         in validateLoop w workspaceRoot baseNumber totalSitesToCreate (Suc i)
              (if pathExists w projectPath then conflicts @ [projectName] else conflicts))
      else conflicts)"
  by pat_completeness auto
termination
  by (relation "measure (\<lambda>(w, r, b, t, i, c). t - i)") auto

declare validateLoop.simps [simp del]

definition validateProjectNames ::
  "world \<Rightarrow> path \<Rightarrow> string \<Rightarrow> nat \<Rightarrow> error + string list" where
  "validateProjectNames w workspaceRoot startingSiteName totalSitesToCreate =
     (case extractSiteNumber startingSiteName of
        Inl e \<Rightarrow> Inl e
      | Inr baseNumber \<Rightarrow> Inr (validateLoop w workspaceRoot baseNumber totalSitesToCreate 0 []))"

text \<open>
  The names that the specification derives from a starting name whose trailing integer is
  \<open>n\<close>: the text \<open>site\<close> followed by \<open>n + i\<close> for \<open>i = 0, \<dots>, K - 1\<close>.
\<close>

definition siteNames :: "int \<Rightarrow> nat \<Rightarrow> string list" where
  "siteNames n K = map (\<lambda>i. ''site'' @ decimal (n + int i)) [0..<K]"

subsection \<open>\<open>findTemplatePath\<close> and \<open>validateTemplateProject\<close>\<close>

text \<open>
  \<open>path.join(dir, name)\<close> for a name that the user has typed: the name is cut at every
  \<open>/\<close>; an empty part and \<open>.\<close> stay in the directory, \<open>..\<close> goes to the parent (the root is
  its own parent) and any other part goes down.
\<close>

fun splitSlash :: "string \<Rightarrow> string list" where
  "splitSlash [] = [[]]"
| "splitSlash (c # cs) =
     (if c = CHR ''/'' then [] # splitSlash cs
      else (case splitSlash cs of [] \<Rightarrow> [[c]] | part # parts \<Rightarrow> (c # part) # parts))"

definition joinStep :: "path \<Rightarrow> string \<Rightarrow> path" where
  "joinStep dir part =
     (if part = [] \<or> part = ''.'' then dir
      else if part = ''..'' then butlast dir
      else dir @ [part])"

definition joinPath :: "path \<Rightarrow> string \<Rightarrow> path" where
  "joinPath dir name = foldl joinStep dir (splitSlash name)"

text \<open>
  \<open>findLoop w startDir templateName currentDir n\<close> runs the last \<open>n\<close> of the five
  iterations of \<open>for (let i = 0; i < 5; i++)\<close>. \<open>None\<close> is \<open>null\<close>.
\<close>

fun findLoop :: "world \<Rightarrow> path \<Rightarrow> string \<Rightarrow> path \<Rightarrow> nat \<Rightarrow> path option" where
  "findLoop w startDir templateName currentDir 0 = None"
| "findLoop w startDir templateName currentDir (Suc n) =
     (let potentialPath = joinPath currentDir templateName
      in if pathExists w potentialPath then Some potentialPath
         else
           (let parentDir = butlast currentDir
            in if parentDir = currentDir then
                 (let siblingCheckDir = butlast startDir @ [''wjspark''];
                      finalPath = joinPath siblingCheckDir templateName
                  in if pathExists w finalPath then Some finalPath else None)
               else findLoop w startDir templateName parentDir n))"

definition findTemplatePath :: "world \<Rightarrow> path \<Rightarrow> string \<Rightarrow> path option" where
  "findTemplatePath w startDir templateName = findLoop w startDir templateName startDir 5"

text \<open>
  The search as the specification words it. \<open>levels d\<close> lists \<open>d\<close>, its parent, and so on
  up to the root. \<open>searchLevels n\<close> looks at the first \<open>n\<close> of these levels and returns the
  template of the first level that has one; when none has and the root of the file system
  is among the levels it has looked at, it makes the last check in \<open>wjspark\<close> next to the
  workspace root.
\<close>

function levels :: "path \<Rightarrow> path list" where
  "levels d = (if d = [] then [[]] else d # levels (butlast d))"
  by pat_completeness auto
termination
  by (relation "measure length") auto

declare levels.simps [simp del]

definition searchLevels :: "nat \<Rightarrow> world \<Rightarrow> path \<Rightarrow> string \<Rightarrow> path option" where
  "searchLevels n w workspaceRoot templateName =
     (case find (\<lambda>d. pathExists w (joinPath d templateName)) (take n (levels workspaceRoot)) of
        Some d \<Rightarrow> Some (joinPath d templateName)
      | None \<Rightarrow>
          if [] \<in> set (take n (levels workspaceRoot))
             \<and> pathExists w (joinPath (butlast workspaceRoot @ [''wjspark'']) templateName)
          then Some (joinPath (butlast workspaceRoot @ [''wjspark'']) templateName)
          else None)"

text \<open>
  The claim as it is worded checks the workspace root and then walks up parent
  directories, five levels at most: six levels with the workspace root.
\<close>

definition locateAsStated :: "world \<Rightarrow> path \<Rightarrow> string \<Rightarrow> path option" where
  "locateAsStated = searchLevels 6"

text \<open>
  The amended claim: the workspace root and at most four parent directories, five levels
  with the workspace root.
\<close>

definition locate :: "world \<Rightarrow> path \<Rightarrow> string \<Rightarrow> path option" where
  "locate = searchLevels 5"

definition requiredFiles :: "path list" where
  "requiredFiles = [[''data'', ''site-config.js''], [''data'', ''games.json'']]"

fun requireLoop :: "world \<Rightarrow> path \<Rightarrow> path list \<Rightarrow> error + unit" where
  "requireLoop w fullPath [] = Inr ()"
| "requireLoop w fullPath (file # others) =
     (if \<not> pathExists w (fullPath @ file)
      then Inl (MissingTemplateFile file)
      else requireLoop w fullPath others)"

definition validateTemplateProject :: "world \<Rightarrow> path \<Rightarrow> error + unit" where
  "validateTemplateProject w fullPath =
     (if \<not> pathExists w fullPath then Inl TemplatePathMissing
      else requireLoop w fullPath requiredFiles)"

subsection \<open>Configuration, answers and the environment\<close>

record siteTemplate =
  title :: string
  description :: string
  keywords' :: "string list"
  language :: string

record config =
  domains :: "string list"
  githubUsername :: string
  siteTemplate :: siteTemplate

text \<open>The configuration of the repository (\<open>config.js\<close>).\<close>

definition config :: config where
  "config = \<lparr>
     domains = [''game92.vip''],
     githubUsername = ''wjspark'',
     siteTemplate = \<lparr>
       title = ''game92 Games - Online HTML5 Games Platform'',
       description = ''Discover endless entertainment with our collection of premium HTML5 games. Play instantly in your browser - featuring mind-bending puzzles, thrilling adventures, strategic challenges, and fast-paced action games for all ages.'',
       keywords' = [''Web Games'', ''Interactive Entertainment'', ''Instant Play Games'',
         ''Cross-Platform Gaming'', ''Educational Games'', ''Multiplayer Games'', ''Retro Games'',
         ''Mobile-Friendly Games'', ''Gaming Portal'', ''Flash Alternative''],
       language = ''en'' \<rparr> \<rparr>"

text \<open>
  The object \<open>answers\<close>. The prompts fill the first five fields; \<open>getUserInput\<close> adds
  \<open>startingSiteName\<close> and \<open>templatePath\<close>. The prompts accept \<open>subdomainCount \<ge> 0\<close>,
  \<open>gamesMin \<ge> 1\<close> and \<open>gamesMax \<ge> gamesMin\<close> only, and ask for \<open>prefixLength\<close> (between
  3 and 10) when \<open>subdomainCount > 0\<close>; \<open>subdomainCount\<close> and \<open>prefixLength\<close> bound loops
  that count up from zero and are natural numbers here.
\<close>

record answers =
  templateName :: string
  subdomainCount :: nat
  prefixLength :: nat
  gamesMin :: int
  gamesMax :: int
  startingSiteName :: string
  templatePath :: path

text \<open>
  A game of the catalog: \<open>tags\<close> is \<open>None\<close> when \<open>game.tags\<close> is not an array; the other
  fields of the object are the text \<open>payload\<close>. The field \<open>games\<close> of the parsed file is
  a falsy value or absent (\<open>Absent\<close>), a truthy value that is not an array (\<open>NotArray\<close>), or
  an array of game objects.
\<close>

record game =
  tags :: "string list option"
  payload :: string

datatype gamesField = Absent | NotArray | Games "game list"

record gamesData =
  games :: gamesField
  otherFields :: string

text \<open>
  What the program is run with: the random oracle, the parser and the printer of
  \<open>games.json\<close> (\<open>fs.readJson\<close> and \<open>fs.writeJson\<close> of the library, taken as parameters;
  \<open>parseJson\<close> gives \<open>None\<close> where parsing throws), the directory \<open>this.workspaceRoot\<close>
  and the imported \<open>config\<close>.
\<close>

record env =
  random :: "nat \<Rightarrow> real"
  parseJson :: "string \<Rightarrow> gamesData option"
  stringifyJson :: "gamesData \<Rightarrow> string"
  workspaceRoot :: path
  conf :: config

definition readJson :: "env \<Rightarrow> world \<Rightarrow> path \<Rightarrow> error + gamesData" where
  "readJson e w p =
     (case files w p of
        Some (File text) \<Rightarrow>
          (case parseJson e text of None \<Rightarrow> Inl ReadJsonFailed | Some gd \<Rightarrow> Inr gd)
      | _ \<Rightarrow> Inl ReadJsonFailed)"

subsection \<open>\<open>getUserInput\<close>\<close>

text \<open>The filter \<open>Array.isArray(game.tags) && game.tags.includes("html5")\<close>.\<close>

definition isHtml5 :: "game \<Rightarrow> bool" where
  "isHtml5 g = (case tags g of None \<Rightarrow> False | Some ts \<Rightarrow> ''html5'' \<in> set ts)"

text \<open>
  \<open>gamesData.games ? gamesData.games.filter(\<dots>) : []\<close>: a truthy value that is not an
  array has no method \<open>filter\<close>, and the call throws.
\<close>

definition html5GamesOf :: "gamesData \<Rightarrow> error + game list" where
  "html5GamesOf gd =
     (case games gd of
        Absent \<Rightarrow> Inr []
      | NotArray \<Rightarrow> Inl TypeError
      | Games gs \<Rightarrow> Inr (filter isHtml5 gs))"

text \<open>
  The loop \<open>while (true)\<close> that asks for the starting name. The list holds the names the
  user types, in order; the prompt's validator has accepted each of them. When the list
  is used up the prompt waits for ever, which is \<open>None\<close>.
\<close>

fun promptStartingSiteName ::
  "world \<Rightarrow> path \<Rightarrow> nat \<Rightarrow> string list \<Rightarrow> (error + string) option" where
  "promptStartingSiteName w wsRoot totalSitesToCreate [] = None"
| "promptStartingSiteName w wsRoot totalSitesToCreate (typed # later) =
     (case validateProjectNames w wsRoot typed totalSitesToCreate of
        Inl e \<Rightarrow> Some (Inl e)
      | Inr conflicts \<Rightarrow>
          if length conflicts = 0 then Some (Inr typed)
          else promptStartingSiteName w wsRoot totalSitesToCreate later)"

text \<open>The part of \<open>getUserInput\<close> after the name is accepted (lines 135-166).\<close>

definition checkTemplate :: "env \<Rightarrow> world \<Rightarrow> answers \<Rightarrow> error + answers" where
  "checkTemplate e w a =
     (case findTemplatePath w (workspaceRoot e) (templateName a) of
        None \<Rightarrow> Inl TemplateNotFound
      | Some foundPath \<Rightarrow>
          (case readJson e w (foundPath @ [''data'', ''games.json'']) of
             Inl err \<Rightarrow> Inl err
           | Inr gamesData \<Rightarrow>
               (case html5GamesOf gamesData of
                  Inl err \<Rightarrow> Inl err
                | Inr html5Games \<Rightarrow>
                    if int (length html5Games) < gamesMax a then Inl InsufficientEligibleGames
                    else
                      (case validateTemplateProject w foundPath of
                         Inl err \<Rightarrow> Inl err
                       | Inr _ \<Rightarrow> Inr (a\<lparr>templatePath := foundPath\<rparr>)))))"

definition getUserInput ::
  "env \<Rightarrow> world \<Rightarrow> answers \<Rightarrow> string list \<Rightarrow> (error + answers) option" where
  "getUserInput e w a typedNames =
     (let totalSitesToCreate = length (domains (conf e)) * (1 + subdomainCount a)
      in case promptStartingSiteName w (workspaceRoot e) totalSitesToCreate typedNames of
           None \<Rightarrow> None
         | Some (Inl err) \<Rightarrow> Some (Inl err)
         | Some (Inr name) \<Rightarrow> Some (checkTemplate e w (a\<lparr>startingSiteName := name\<rparr>)))"

subsection \<open>The domains (\<open>generateRandomPrefix\<close> and \<open>generateProjects\<close>, lines 249-260)\<close>

definition chars :: string where
  "chars = ''abcdefghijklmnopqrstuvwxyz0123456789''"

text \<open>\<open>charAt\<close> gives the empty string for an index outside the string.\<close>

definition charAt :: "string \<Rightarrow> nat \<Rightarrow> string" where
  "charAt s i = (if i < length s then [s ! i] else [])"

text \<open>
  \<open>prefixLoop rnd k n result\<close> runs \<open>n\<close> iterations of the loop of \<open>generateRandomPrefix\<close>,
  whose body does not read its counter.
\<close>

fun prefixLoop :: "(nat \<Rightarrow> real) \<Rightarrow> nat \<Rightarrow> nat \<Rightarrow> string \<Rightarrow> string \<times> nat" where
  "prefixLoop rnd k 0 result = (result, k)"
| "prefixLoop rnd k (Suc n) result =
     prefixLoop rnd (Suc k) n (result @ charAt chars (randomIndex (rnd k) (length chars)))"

definition generateRandomPrefix :: "(nat \<Rightarrow> real) \<Rightarrow> nat \<Rightarrow> nat \<Rightarrow> string \<times> nat" where
  "generateRandomPrefix rnd k len = prefixLoop rnd k len []"

text \<open>The inner loop \<open>for (let i = 0; i < subdomainCount; i++)\<close>, \<open>n\<close> iterations.\<close>

fun subdomainLoop ::
  "(nat \<Rightarrow> real) \<Rightarrow> nat \<Rightarrow> string \<Rightarrow> nat \<Rightarrow> nat \<Rightarrow> string list \<Rightarrow> string list \<times> nat" where
  "subdomainLoop rnd k mainDomain prefixLen 0 allDomains = (allDomains, k)"
| "subdomainLoop rnd k mainDomain prefixLen (Suc n) allDomains =
     (case generateRandomPrefix rnd k prefixLen of
        (prefix', k') \<Rightarrow>
          subdomainLoop rnd k' mainDomain prefixLen n (allDomains @ [prefix' @ ''.'' @ mainDomain]))"

text \<open>The outer loop \<open>for (const mainDomain of config.domains)\<close>.\<close>

fun domainLoop ::
  "(nat \<Rightarrow> real) \<Rightarrow> nat \<Rightarrow> string list \<Rightarrow> nat \<Rightarrow> nat \<Rightarrow> string list \<Rightarrow> string list \<times> nat" where
  "domainLoop rnd k [] subdomains prefixLen allDomains = (allDomains, k)"
| "domainLoop rnd k (mainDomain # others) subdomains prefixLen allDomains =
     (case (if subdomains > 0
            then subdomainLoop rnd k mainDomain prefixLen subdomains (allDomains @ [mainDomain])
            else (allDomains @ [mainDomain], k)) of
        (allDomains', k') \<Rightarrow> domainLoop rnd k' others subdomains prefixLen allDomains')"

definition planDomains ::
  "(nat \<Rightarrow> real) \<Rightarrow> nat \<Rightarrow> string list \<Rightarrow> nat \<Rightarrow> nat \<Rightarrow> string list \<times> nat" where
  "planDomains rnd k baseDomains subdomains prefixLen =
     domainLoop rnd k baseDomains subdomains prefixLen []"

subsection \<open>\<open>updateSiteConfig\<close>\<close>

text \<open>
  \<open>JSON.stringify\<close> on an array of strings: each string is quoted, with the escapes of
  the language for the quote, the backslash and the control characters.
\<close>

definition hexDigit :: "nat \<Rightarrow> char" where
  "hexDigit n = ''0123456789abcdef'' ! (n mod 16)"

definition quoteJsonChar :: "char \<Rightarrow> string" where
  "quoteJsonChar c =
     (if c = CHR 0x22 then [CHR 0x5C, CHR 0x22]
      else if c = CHR 0x5C then [CHR 0x5C, CHR 0x5C]
      else if c = CHR 0x08 then [CHR 0x5C, CHR ''b'']
      else if c = CHR 0x09 then [CHR 0x5C, CHR ''t'']
      else if c = CHR 0x0A then [CHR 0x5C, CHR ''n'']
      else if c = CHR 0x0C then [CHR 0x5C, CHR ''f'']
      else if c = CHR 0x0D then [CHR 0x5C, CHR ''r'']
      else if (of_char c :: nat) < 32
        then [CHR 0x5C, CHR ''u'', CHR ''0'', CHR ''0'',
              hexDigit ((of_char c :: nat) div 16), hexDigit (of_char c :: nat)]
      else [c])"

definition quoteJson :: "string \<Rightarrow> string" where
  "quoteJson s = [CHR 0x22] @ concat (map quoteJsonChar s) @ [CHR 0x22]"

fun joinWith :: "string \<Rightarrow> string list \<Rightarrow> string" where
  "joinWith sep [] = []"
| "joinWith sep [s] = s"
| "joinWith sep (s # t # ss) = s @ sep @ joinWith sep (t # ss)"

definition stringifyStrings :: "string list \<Rightarrow> string" where
  "stringifyStrings ss = ''['' @ joinWith '','' (map quoteJson ss) @ '']''"

text \<open>The template literal \<open>newSiteObject\<close>, line by line.\<close>

definition newSiteObject :: "siteTemplate \<Rightarrow> string \<Rightarrow> string" where
  \<open>newSiteObject t newDomain =
     ''const site = {\<newline>'' @
     ''  "name": "'' @ newDomain @ ''",\<newline>'' @
     ''  "title": "'' @ title t @ ''",\<newline>'' @
     ''  "description": "'' @ description t @ ''",\<newline>'' @
     ''  "logo": "/images/logo.png",\<newline>'' @
     ''  "favicon": "/favicon.ico",\<newline>'' @
     ''  "keywords": '' @ stringifyStrings (keywords' t) @ '',\<newline>'' @
     ''  "author": "'' @ newDomain @ '' Team",\<newline>'' @
     ''  "language": "'' @ language t @ ''",\<newline>'' @
     ''  "url": "https://'' @ newDomain @ ''",\<newline>'' @
     ''  "twitterCard": "/images/summary_large_image.png",\<newline>'' @
     ''  "ogImage": "/images/og-image.png",\<newline>'' @
     ''};''\<close>

text \<open>
  \<open>splitFirst pat s\<close> cuts \<open>s\<close> at the first occurrence of \<open>pat\<close>: the text before it and
  the text after it.
\<close>

fun splitFirst :: "string \<Rightarrow> string \<Rightarrow> (string \<times> string) option" where
  "splitFirst pat [] = (if pat = [] then Some ([], []) else None)"
| "splitFirst pat (c # cs) =
     (if prefix pat (c # cs) then Some ([], drop (length pat) (c # cs))
      else (case splitFirst pat cs of
              None \<Rightarrow> None
            | Some (front, rear) \<Rightarrow> Some (c # front, rear)))"

text \<open>
  The regular expression \<open>/const site = {[\s\S]*?};/\<close>. The class \<open>[\s\S]\<close> matches every
  character. A match starts at the first occurrence of the opening text that has the
  closing text somewhere after it; when the first occurrence has none, no later one has.
  The lazy star ends the match at the first closing text after the opening. The result
  is the text before the match, the match, and the text after it.
\<close>

definition siteOpen :: string where
  "siteOpen = ''const site = {''"

definition siteClose :: string where
  "siteClose = ''};''"

definition matchSite :: "string \<Rightarrow> (string \<times> string \<times> string) option" where
  "matchSite content =
     (case splitFirst siteOpen content of
        None \<Rightarrow> None
      | Some (front, opened) \<Rightarrow>
          (case splitFirst siteClose opened of
             None \<Rightarrow> None
           | Some (body, rear) \<Rightarrow> Some (front, siteOpen @ body @ siteClose, rear)))"

text \<open>
  \<open>String.prototype.replace\<close> expands patterns in the replacement text: \<open>$$\<close> is a dollar
  sign, \<open>$&\<close> the match, \<open>$`\<close> the text before the match and \<open>$'\<close> the text after it. The
  expression has no capture group, so \<open>$1\<close>, \<open>$<name>\<close> and every other \<open>$\<close> stay as
  they are.
\<close>

fun getSubstitution :: "string \<Rightarrow> string \<Rightarrow> string \<Rightarrow> string \<Rightarrow> string" where
  "getSubstitution matched front rear (c # d # t) =
     (if c = CHR ''$'' \<and> d = CHR ''$'' then CHR ''$'' # getSubstitution matched front rear t
      else if c = CHR ''$'' \<and> d = CHR ''&'' then matched @ getSubstitution matched front rear t
      else if c = CHR ''$'' \<and> d = CHR 0x60 then front @ getSubstitution matched front rear t
      else if c = CHR ''$'' \<and> d = CHR 0x27 then rear @ getSubstitution matched front rear t
      else c # getSubstitution matched front rear (d # t))"
| "getSubstitution matched front rear t = t"

text \<open>\<open>content.replace(/const site = {[\s\S]*?};/, replacement)\<close>: the first match only.\<close>

definition replaceSite :: "string \<Rightarrow> string \<Rightarrow> string" where
  "replaceSite content replacement =
     (case matchSite content of
        None \<Rightarrow> content
      | Some (front, matched, rear) \<Rightarrow>
          front @ getSubstitution matched front rear replacement @ rear)"

text \<open>
  \<open>fs.readFile\<close> throws when the path is not a file. The parameter \<open>projectName\<close> is not
  used by the source either.
\<close>

definition updateSiteConfig :: "env \<Rightarrow> world \<Rightarrow> path \<Rightarrow> string \<Rightarrow> string \<Rightarrow> error + world" where
  "updateSiteConfig e w projectPath name newDomain =
     (let configPath = projectPath @ [''data'', ''site-config.js'']
      in case files w configPath of
           Some (File content) \<Rightarrow>
             Inr (w\<lparr>files := (files w)(configPath \<mapsto>
                    File (replaceSite content (newSiteObject (siteTemplate (conf e)) newDomain)))\<rparr>)
         | _ \<Rightarrow> Inl ReadFileFailed)"

subsection \<open>\<open>processGamesJson\<close>\<close>

text \<open>
  \<open>a.slice(0, end)\<close>: \<open>undefined\<close> takes the whole array, a negative \<open>end\<close> counts from the
  end of the array.
\<close>

definition slice0 :: "'a list \<Rightarrow> int option \<Rightarrow> 'a list" where
  "slice0 a end =
     (case end of
        None \<Rightarrow> a
      | Some n \<Rightarrow> if n < 0 then take (nat (int (length a) + n)) a else take (nat n) a)"

text \<open>
  The body of the \<open>try\<close> block; every error inside it is caught and only logged, which
  leaves the state as it was.
\<close>

definition processGamesJson :: "env \<Rightarrow> world \<Rightarrow> path \<Rightarrow> int option \<Rightarrow> world" where
  "processGamesJson e w projectPath gamesCount =
     (let gamesPath = projectPath @ [''data'', ''games.json'']
      in case readJson e w gamesPath of
           Inl err \<Rightarrow> w
         | Inr gamesData \<Rightarrow>
             (case games gamesData of
                Games gs \<Rightarrow>
                  (case shuffle (random e) (calls w) (filter isHtml5 gs) of
                     (html5Games, k) \<Rightarrow>
                       w\<lparr>calls := k,
                         files := (files w)(gamesPath \<mapsto> File (stringifyJson e
                           (gamesData\<lparr>games := Games (slice0 html5Games gamesCount)\<rparr>)))\<rparr>)
              | _ \<Rightarrow> w\<lparr>files := (files w)(gamesPath \<mapsto> File (stringifyJson e gamesData))\<rparr>))"

subsection \<open>\<open>generateProjects\<close> and \<open>start\<close>\<close>

text \<open>
  The filter of the copy rejects a source path that ends with \<open>/.git\<close> or contains
  \<open>/.git/\<close>, which is a path with a component \<open>.git\<close>.
\<close>

definition copyFilter :: "path \<Rightarrow> bool" where
  "copyFilter src = (''.git'' \<notin> set src)"

text \<open>
  \<open>fs.copy(src, dest, {filter})\<close> of the library: it throws when \<open>src\<close> does not exist or
  when \<open>dest\<close> is \<open>src\<close> or lies inside it; otherwise every path below \<open>src\<close> that the
  filter accepts is created below \<open>dest\<close> with the same node.
\<close>

definition copy :: "world \<Rightarrow> path \<Rightarrow> path \<Rightarrow> error + world" where
  "copy w src dest =
     (if files w src = None \<or> prefix src dest then Inl CopyFailed
      else Inr (w\<lparr>files := (\<lambda>p.
             if prefix dest p \<and> copyFilter (src @ drop (length dest) p)
                \<and> files w (src @ drop (length dest) p) \<noteq> None
             then files w (src @ drop (length dest) p)
             else files w p)\<rparr>))"

text \<open>
  The loop \<open>for (const newDomain of allDomains)\<close> (lines 274-307) with its two counters.
  It stops at the first error, leaving what it has created.
\<close>

fun projectLoop ::
  "env \<Rightarrow> path \<Rightarrow> int list \<Rightarrow> string list \<Rightarrow> number \<Rightarrow> nat \<Rightarrow> world \<Rightarrow> (error + unit) \<times> world" where
  "projectLoop e template possibleCounts [] siteNumberCounter siteIndex w = (Inr (), w)"
| "projectLoop e template possibleCounts (newDomain # others) siteNumberCounter siteIndex w =
     (let siteNumberCounter' = addNumber siteNumberCounter 1;
          name = ''site'' @ numToString siteNumberCounter';
          projectPath = workspaceRoot e @ [name]
      in if pathExists w projectPath then (Inl ProjectExists, w)
         else
           (case copy w template projectPath of
              Inl err \<Rightarrow> (Inl err, w)
            | Inr w1 \<Rightarrow>
                (case updateSiteConfig e w1 projectPath name newDomain of
                   Inl err \<Rightarrow> (Inl err, w1)
                 | Inr w2 \<Rightarrow>
                     (let gamesCount = countAt possibleCounts siteIndex;
                          w3 = processGamesJson e w2 projectPath gamesCount;
                          w4 = w3\<lparr>generatedSites := generatedSites w3 @
                                 [\<lparr>projectName = name, path = projectPath, domain = newDomain\<rparr>]\<rparr>
                      in projectLoop e template possibleCounts others siteNumberCounter'
                           (Suc siteIndex) w4))))"

definition generateProjects :: "env \<Rightarrow> world \<Rightarrow> answers \<Rightarrow> (error + unit) \<times> world" where
  "generateProjects e w a =
     (case extractSiteNumber (startingSiteName a) of
        Inl err \<Rightarrow> (Inl err, w)
      | Inr baseNumber \<Rightarrow>
          (let totalSitesToCreate = length (domains (conf e)) * (1 + subdomainCount a);
               siteNumberCounter = addNumber baseNumber (- 1)
           in case planDomains (random e) (calls w) (domains (conf e)) (subdomainCount a)
                     (prefixLength a) of
                (allDomains, k1) \<Rightarrow>
                  (case planCounts (random e) k1 (gamesMin a) (gamesMax a) totalSitesToCreate of
                     Inl err \<Rightarrow> (Inl err, w\<lparr>calls := k1\<rparr>)
                   | Inr (possibleCounts, k2) \<Rightarrow>
                       projectLoop e (templatePath a) possibleCounts allDomains
                         siteNumberCounter 0 (w\<lparr>calls := k2\<rparr>))))"

text \<open>
  \<open>start\<close>, from \<open>getUserInput\<close> to \<open>generateProjects\<close>; an error ends the run with the
  state it has reached. \<open>checkDependencies\<close> before them and \<open>deployToGitHub\<close> and
  \<open>writeSiteMappings\<close> after them drive external tools and are not part of this model.
\<close>

definition start ::
  "env \<Rightarrow> world \<Rightarrow> answers \<Rightarrow> string list \<Rightarrow> ((error + unit) \<times> world) option" where
  "start e w a typedNames =
     (case getUserInput e w a typedNames of
        None \<Rightarrow> None
      | Some (Inl err) \<Rightarrow> Some (Inl err, w)
      | Some (Inr answers) \<Rightarrow> Some (generateProjects e w answers))"

subsection \<open>The domain sequence of the specification\<close>

text \<open>
  \<open>expand\<close> as the specification words it, for given prefixes: every base domain, each
  followed by its entries \<open><prefix>.<base>\<close>. \<open>randomPrefixes n len ps\<close> says that \<open>ps\<close>
  are \<open>n\<close> prefixes of \<open>len\<close> characters each, drawn from lowercase letters and digits.
\<close>

definition expand :: "string list \<Rightarrow> string list list \<Rightarrow> string list" where
  "expand baseDomains pss =
     concat (map (\<lambda>(base, ps). base # map (\<lambda>p. p @ ''.'' @ base) ps) (zip baseDomains pss))"

definition randomPrefixes :: "nat \<Rightarrow> nat \<Rightarrow> string list \<Rightarrow> bool" where
  "randomPrefixes subdomains prefixLen ps =
     (length ps = subdomains \<and> (\<forall>p \<in> set ps. length p = prefixLen \<and> set p \<subseteq> set chars))"

subsection \<open>The site block of the specification\<close>

text \<open>
  The block that the specification describes, as a list of fields and their values in
  the syntax of the file: a text in double quotes, or the printed array of keywords.
\<close>

definition quoted :: "string \<Rightarrow> string" where
  "quoted s = [CHR 0x22] @ s @ [CHR 0x22]"

definition fieldLine :: "string \<Rightarrow> string \<Rightarrow> string" where
  "fieldLine key v = ''  '' @ quoted key @ '': '' @ v @ '',\<newline>''"

definition siteBlock :: "(string \<times> string) list \<Rightarrow> string" where
  "siteBlock kvs =
     siteOpen @ ''\<newline>'' @ concat (map (\<lambda>(key, v). fieldLine key v) kvs) @ siteClose"

definition siteFields :: "siteTemplate \<Rightarrow> string \<Rightarrow> (string \<times> string) list" where
  "siteFields t newDomain =
     [(''name'', quoted newDomain),
      (''title'', quoted (title t)),
      (''description'', quoted (description t)),
      (''logo'', quoted ''/images/logo.png''),
      (''favicon'', quoted ''/favicon.ico''),
      (''keywords'', stringifyStrings (keywords' t)),
      (''author'', quoted (newDomain @ '' Team'')),
      (''language'', quoted (language t)),
      (''url'', quoted (''https://'' @ newDomain)),
      (''twitterCard'', quoted ''/images/summary_large_image.png''),
      (''ogImage'', quoted ''/images/og-image.png'')]"

text \<open>A template none of whose texts contains the character \<open>$\<close>.\<close>

definition plainTemplate :: "siteTemplate \<Rightarrow> bool" where
  "plainTemplate t =
     (CHR ''$'' \<notin> set (title t) \<and> CHR ''$'' \<notin> set (description t)
      \<and> CHR ''$'' \<notin> set (language t) \<and> (\<forall>k \<in> set (keywords' t). CHR ''$'' \<notin> set k))"

subsection \<open>Example inputs\<close>

text \<open>A sequence of random numbers, and a workspace \<open>/ws\<close> in which \<open>site11\<close> exists.\<close>

definition exampleRandom :: "nat \<Rightarrow> real" where
  "exampleRandom k = real (7 * k mod 36) / 36"

definition exampleWorkspace :: world where
  "exampleWorkspace =
     \<lparr>files = [[''ws''] \<mapsto> Dir, [''ws'', ''site11''] \<mapsto> Dir], calls = 0, generatedSites = []\<rparr>"

text \<open>
  A file system in which \<open>site31\<close> exists in \<open>/a\<close>, in the root directory and in
  \<open>/wjspark\<close>.
\<close>

definition exampleTree :: world where
  "exampleTree =
     \<lparr>files = [[''a'', ''site31''] \<mapsto> Dir, [''site31''] \<mapsto> Dir, [''wjspark'', ''site31''] \<mapsto> Dir],
      calls = 0, generatedSites = []\<rparr>"

text \<open>
  A catalog of five games, three of them tagged \<open>html5\<close>, in a file whose text is
  \<open>catalog\<close>; the printer of the example writes the payloads of the games. The template
  \<open>/ws/site31\<close> holds the two required files and a directory \<open>.git\<close>.
\<close>

definition exampleCatalog :: "game list" where
  "exampleCatalog =
     [\<lparr>tags = Some [''html5'', ''puzzle''], payload = ''A''\<rparr>,
      \<lparr>tags = None, payload = ''B''\<rparr>,
      \<lparr>tags = Some [''flash''], payload = ''C''\<rparr>,
      \<lparr>tags = Some [''html5''], payload = ''D''\<rparr>,
      \<lparr>tags = Some [''action'', ''html5''], payload = ''E''\<rparr>]"

definition exampleGames :: gamesData where
  "exampleGames = \<lparr>games = Games exampleCatalog, otherFields = []\<rparr>"

definition exampleEnv :: env where
  "exampleEnv =
     \<lparr>random = exampleRandom,
      parseJson = (\<lambda>text. if text = ''catalog'' then Some exampleGames else None),
      stringifyJson = (\<lambda>gd. case games gd of Games gs \<Rightarrow> concat (map payload gs) | _ \<Rightarrow> ''none''),
      workspaceRoot = [''ws''],
      conf = config\<rparr>"

definition exampleConfigText :: string where
  \<open>exampleConfigText = ''// old\<newline>const site = { "name": "old" };\<newline>export default site;''\<close>

definition exampleSite :: world where
  "exampleSite =
     \<lparr>files = [[''ws''] \<mapsto> Dir,
               [''ws'', ''site31''] \<mapsto> Dir,
               [''ws'', ''site31'', ''.git''] \<mapsto> Dir,
               [''ws'', ''site31'', ''.git'', ''HEAD''] \<mapsto> File ''ref'',
               [''ws'', ''site31'', ''data''] \<mapsto> Dir,
               [''ws'', ''site31'', ''data'', ''site-config.js''] \<mapsto> File exampleConfigText,
               [''ws'', ''site31'', ''data'', ''games.json''] \<mapsto> File ''catalog''],
      calls = 0, generatedSites = []\<rparr>"

text \<open>Answers that start the names at \<open>mysite007\<close>, for one subdomain per base domain.\<close>

definition exampleAnswers :: answers where
  "exampleAnswers =
     \<lparr>templateName = ''site31'', subdomainCount = 1, prefixLength = 3, gamesMin = 1, gamesMax = 3,
      startingSiteName = ''mysite007'', templatePath = [''ws'', ''site31'']\<rparr>"

text \<open>A project whose site-configuration file has no site block.\<close>

definition exampleBare :: world where
  "exampleBare =
     \<lparr>files = [[''ws'', ''site7'', ''data'', ''site-config.js''] \<mapsto> File ''export default {};''],
      calls = 0, generatedSites = []\<rparr>"

text \<open>
  A workspace in which the site \<open>2^53 + 1\<close> exists, and answers that start the names at
  \<open>2^53\<close>.
\<close>

definition exampleLarge :: world where
  "exampleLarge =
     \<lparr>files = [[''ws''] \<mapsto> Dir, [''ws'', ''site9007199254740993''] \<mapsto> Dir],
      calls = 0, generatedSites = []\<rparr>"

definition exampleLargeAnswers :: answers where
  "exampleLargeAnswers = exampleAnswers\<lparr>startingSiteName := ''site9007199254740992''\<rparr>"

section \<open>Properties\<close>

subsection \<open>The shuffle is a permutation\<close>

lemma randomIndex_less:
  assumes "0 \<le> r" "r < 1" "0 < n"
  shows "randomIndex r n < n"
proof -
  have "r * real n < real n"
    using assms by simp
  then have "\<lfloor>r * real n\<rfloor> < int n"
    by (simp add: floor_less_iff)
  moreover have "0 \<le> \<lfloor>r * real n\<rfloor>"
    using assms by simp
  ultimately show ?thesis
    unfolding randomIndex_def by linarith
qed

lemma mset_swap_cells:
  assumes "i < length a" "j < length a"
  shows "mset (swap a i j) = mset a"
  using assms by (simp add: swap_def mset_swap)

lemma length_swap [simp]: "length (swap a i j) = length a"
  by (simp add: swap_def)

lemma shuffleLoop_mset:
  assumes "unitInterval rnd" "n < length a \<or> n = 0"
  shows "mset (fst (shuffleLoop rnd k n a)) = mset a"
  using assms
proof (induction n arbitrary: k a)
  case 0
  then show ?case by simp
next
  case (Suc n)
  have r: "0 \<le> rnd k" "rnd k < 1"
    using Suc.prems(1) by (simp_all add: unitInterval_def)
  have j: "randomIndex (rnd k) (Suc n + 1) < Suc n + 1"
    by (rule randomIndex_less [OF r]) simp
  have i: "Suc n < length a"
    using Suc.prems(2) by simp
  have "mset (swap a (Suc n) (randomIndex (rnd k) (Suc n + 1))) = mset a"
    using i j by (intro mset_swap_cells) simp_all
  moreover have "mset (fst (shuffleLoop rnd (Suc k) n (swap a (Suc n) (randomIndex (rnd k) (Suc n + 1)))))
      = mset (swap a (Suc n) (randomIndex (rnd k) (Suc n + 1)))"
    using i by (intro Suc.IH [OF Suc.prems(1)]) simp
  ultimately show ?case
    by (simp add: Let_def)
qed

lemma shuffle_mset:
  assumes "unitInterval rnd"
  shows "mset (fst (shuffle rnd k a)) = mset a"
proof (cases a)
  case Nil
  then show ?thesis by (simp add: shuffle_def)
next
  case (Cons x xs)
  then have "length a - 1 < length a" by simp
  then show ?thesis
    unfolding shuffle_def using assms by (intro shuffleLoop_mset) simp_all
qed

lemma shuffleLoop_calls: "snd (shuffleLoop rnd k n a) = k + n"
  by (induction n arbitrary: k a) (simp_all add: Let_def)

lemma shuffle_calls: "snd (shuffle rnd k a) = k + (length a - 1)"
  by (simp add: shuffle_def shuffleLoop_calls)

subsection \<open>The planned game counts\<close>

lemma countAt_map:
  assumes "t \<le> length pc"
  shows "map (countAt pc) [0..<t] = map Some (take t pc)"
  using assms by (intro nth_equalityI) (simp_all add: countAt_def)

text \<open>
  Claim C1. When the range \<open>gmin..gmax\<close> holds at least \<open>totalSites\<close> integers, planning
  the counts succeeds, and the counts that the projects \<open>0, \<dots>, totalSites - 1\<close> read
  from the shuffled list are \<open>totalSites\<close> integers, pairwise distinct, all between
  \<open>gmin\<close> and \<open>gmax\<close>. The random numbers are any values that \<open>Math.random()\<close> can
  return.
\<close>

theorem planCounts_distinct_in_range:
  assumes "unitInterval rnd" and "int totalSites \<le> gmax - gmin + 1"
  shows "\<exists>possibleCounts k' assigned.
           planCounts rnd k gmin gmax totalSites = Inr (possibleCounts, k')
         \<and> map (countAt possibleCounts) [0..<totalSites] = map Some assigned
         \<and> length assigned = totalSites
         \<and> distinct assigned
         \<and> (\<forall>c \<in> set assigned. gmin \<le> c \<and> c \<le> gmax)"
proof -
  obtain pc k' where sh: "shuffle rnd k [gmin..gmax] = (pc, k')"
    by (cases "shuffle rnd k [gmin..gmax]")
  have ms: "mset pc = mset [gmin..gmax]"
    using shuffle_mset [OF assms(1), of k "[gmin..gmax]"] sh by simp
  have len: "length pc = nat (gmax - gmin + 1)"
    using mset_eq_length [OF ms] by simp
  have le: "totalSites \<le> length pc"
    using assms(2) len by simp
  have dist: "distinct pc"
    using mset_eq_imp_distinct_iff [OF ms] by simp
  have set: "set pc = {gmin..gmax}"
    using mset_eq_setD [OF ms] by simp
  have 1: "planCounts rnd k gmin gmax totalSites = Inr (pc, k')"
    using assms(2) sh by (simp add: planCounts_def)
  have 2: "map (countAt pc) [0..<totalSites] = map Some (take totalSites pc)"
    by (rule countAt_map [OF le])
  have 3: "length (take totalSites pc) = totalSites"
    using le by simp
  have 4: "distinct (take totalSites pc)"
    using dist by simp
  have 5: "\<forall>c \<in> set (take totalSites pc). gmin \<le> c \<and> c \<le> gmax"
    using set set_take_subset [of totalSites pc] by auto
  show ?thesis
    using 1 2 3 4 5 by blast
qed

theorem planCounts_distinct_in_range_witness:
  "unitInterval (\<lambda>_. 1 / 2) \<and> int 2 \<le> 3 - 1 + 1
   \<and> (\<exists>possibleCounts k' assigned.
           planCounts (\<lambda>_. 1 / 2) 0 1 3 2 = Inr (possibleCounts, k')
         \<and> map (countAt possibleCounts) [0..<2] = map Some assigned
         \<and> length assigned = 2
         \<and> distinct assigned
         \<and> (\<forall>c \<in> set assigned. 1 \<le> c \<and> c \<le> 3))"
  using planCounts_distinct_in_range [where rnd = "\<lambda>_. 1 / 2" and totalSites = 2
      and gmin = 1 and gmax = 3 and k = 0]
  by (simp add: unitInterval_def)

text \<open>
  Claim C6. For a range that the prompt accepts (\<open>gmin \<le> gmax\<close>, the validator of
  \<open>gamesMax\<close>), planning the counts fails with \<open>RangeTooSmall\<close> exactly when
  \<open>gmax - gmin + 1 < totalSites\<close>, and returns the counts exactly when it is not.
\<close>

theorem planCounts_RangeTooSmall_iff:
  assumes "gmin \<le> gmax"
  shows "(planCounts rnd k gmin gmax totalSites = Inl RangeTooSmall
            \<longleftrightarrow> gmax - gmin + 1 < int totalSites)
       \<and> ((\<exists>r. planCounts rnd k gmin gmax totalSites = Inr r)
            \<longleftrightarrow> \<not> gmax - gmin + 1 < int totalSites)"
  using assms by (auto simp add: planCounts_def)

theorem planCounts_RangeTooSmall_iff_witness:
  "(10 :: int) \<le> 12 \<and> planCounts (\<lambda>_. 0) 0 10 12 5 = Inl RangeTooSmall
   \<and> (\<exists>r. planCounts (\<lambda>_. 0) 0 10 12 3 = Inr r)"
  using planCounts_RangeTooSmall_iff [where gmin = 10 and gmax = 12 and totalSites = 5
      and rnd = "\<lambda>_. 0" and k = 0]
    planCounts_RangeTooSmall_iff [where gmin = 10 and gmax = 12 and totalSites = 3
      and rnd = "\<lambda>_. 0" and k = 0]
  by simp

subsection \<open>Evaluating the loops on numerals\<close>

lemma unitInterval_exampleRandom: "unitInterval exampleRandom"
  by (simp add: unitInterval_def exampleRandom_def)

lemma prefixLoop_numeral:
  "prefixLoop rnd k (numeral n) r =
     prefixLoop rnd (Suc k) (pred_numeral n) (r @ charAt chars (randomIndex (rnd k) (length chars)))"
  by (simp add: numeral_eq_Suc)

lemma subdomainLoop_numeral:
  "subdomainLoop rnd k d pl (numeral n) acc =
    (case generateRandomPrefix rnd k pl of
        (p, k') \<Rightarrow> subdomainLoop rnd k' d pl (pred_numeral n) (acc @ [p @ ''.'' @ d]))"
  by (simp add: numeral_eq_Suc)

lemma planDomains_example:
  "planDomains exampleRandom 0 [''a.com''] 2 5
     = ([''a.com'', ''ahov2.a.com'', ''9gnu1.a.com''], 10)"
  by (simp add: planDomains_def generateRandomPrefix_def randomIndex_def chars_def charAt_def
      prefixLoop_numeral subdomainLoop_numeral exampleRandom_def)

subsection \<open>The planned domains\<close>

lemma charAt_chars:
  assumes "0 \<le> r" "r < 1"
  shows "\<exists>c. charAt chars (randomIndex r (length chars)) = [c] \<and> c \<in> set chars"
proof -
  have "randomIndex r (length chars) < length chars"
    by (rule randomIndex_less [OF assms]) (simp add: chars_def)
  then show ?thesis
    by (simp add: charAt_def)
qed

lemma prefixLoop_spec:
  assumes "unitInterval rnd"
  shows "\<exists>p. prefixLoop rnd k n r = (r @ p, k + n) \<and> length p = n \<and> set p \<subseteq> set chars"
proof (induction n arbitrary: k r)
  case 0
  then show ?case by simp
next
  case (Suc n)
  obtain c where c: "charAt chars (randomIndex (rnd k) (length chars)) = [c]" "c \<in> set chars"
    using charAt_chars [of "rnd k"] assms by (auto simp add: unitInterval_def)
  obtain p where p: "prefixLoop rnd (Suc k) n (r @ [c]) = ((r @ [c]) @ p, Suc k + n)"
      "length p = n" "set p \<subseteq> set chars"
    using Suc.IH [of "Suc k" "r @ [c]"] by blast
  have "prefixLoop rnd k (Suc n) r = (r @ (c # p), k + Suc n)"
    using c p by simp
  moreover have "length (c # p) = Suc n" "set (c # p) \<subseteq> set chars"
    using c p by simp_all
  ultimately show ?case by blast
qed

lemma generateRandomPrefix_spec:
  assumes "unitInterval rnd"
  shows "\<exists>p. generateRandomPrefix rnd k n = (p, k + n) \<and> length p = n \<and> set p \<subseteq> set chars"
  using prefixLoop_spec [OF assms, of k n "[]"] by (simp add: generateRandomPrefix_def)

lemma subdomainLoop_spec:
  assumes "unitInterval rnd"
  shows "\<exists>ps k'. subdomainLoop rnd k d pl n acc = (acc @ map (\<lambda>p. p @ ''.'' @ d) ps, k')
           \<and> randomPrefixes n pl ps"
proof (induction n arbitrary: k acc)
  case 0
  then show ?case by (simp add: randomPrefixes_def)
next
  case (Suc n)
  obtain p where p: "generateRandomPrefix rnd k pl = (p, k + pl)" "length p = pl" "set p \<subseteq> set chars"
    using generateRandomPrefix_spec [OF assms] by blast
  obtain ps k' where ps:
    "subdomainLoop rnd (k + pl) d pl n (acc @ [p @ ''.'' @ d])
       = ((acc @ [p @ ''.'' @ d]) @ map (\<lambda>p. p @ ''.'' @ d) ps, k')"
    "randomPrefixes n pl ps"
    using Suc.IH by blast
  have "subdomainLoop rnd k d pl (Suc n) acc = (acc @ map (\<lambda>p. p @ ''.'' @ d) (p # ps), k')"
    using p(1) ps(1) by simp
  moreover have "randomPrefixes (Suc n) pl (p # ps)"
    using p ps(2) by (simp add: randomPrefixes_def)
  ultimately show ?case by blast
qed

lemma domainLoop_spec:
  assumes "unitInterval rnd"
  shows "\<exists>pss k'. domainLoop rnd k ds sc pl acc = (acc @ expand ds pss, k')
           \<and> length pss = length ds \<and> (\<forall>ps \<in> set pss. randomPrefixes sc pl ps)"
proof (induction ds arbitrary: k acc)
  case Nil
  then show ?case by (simp add: expand_def)
next
  case (Cons d ds)
  obtain ps k1 where ps:
    "(if sc > 0 then subdomainLoop rnd k d pl sc (acc @ [d]) else (acc @ [d], k))
       = ((acc @ [d]) @ map (\<lambda>p. p @ ''.'' @ d) ps, k1)"
    "randomPrefixes sc pl ps"
  proof (cases "sc > 0")
    case True
    then show ?thesis
      using subdomainLoop_spec [OF assms, of k d pl sc "acc @ [d]"] that by auto
  next
    case False
    then show ?thesis
      using that [of "[]" k] by (simp add: randomPrefixes_def)
  qed
  obtain pss k' where rest:
    "domainLoop rnd k1 ds sc pl ((acc @ [d]) @ map (\<lambda>p. p @ ''.'' @ d) ps)
       = (((acc @ [d]) @ map (\<lambda>p. p @ ''.'' @ d) ps) @ expand ds pss, k')"
    "length pss = length ds" "\<forall>ps \<in> set pss. randomPrefixes sc pl ps"
    using Cons.IH by blast
  have "domainLoop rnd k (d # ds) sc pl acc = (acc @ expand (d # ds) (ps # pss), k')"
    using ps(1) rest(1) by (simp add: expand_def)
  moreover have "length (ps # pss) = length (d # ds)"
    using rest(2) by simp
  moreover have "\<forall>qs \<in> set (ps # pss). randomPrefixes sc pl qs"
    using ps(2) rest(3) by simp
  ultimately show ?case by blast
qed

lemma length_expand:
  assumes "length pss = length ds" "\<forall>ps \<in> set pss. length ps = sc"
  shows "length (expand ds pss) = length ds * (1 + sc)"
  using assms
proof (induction ds arbitrary: pss)
  case Nil
  then show ?case by (simp add: expand_def)
next
  case (Cons d ds)
  then obtain ps rest where "pss = ps # rest"
    by (cases pss) auto
  then show ?case
    using Cons by (simp add: expand_def)
qed


text \<open>
  Claim C5. The planned domain sequence is, for each base domain in order, the base
  domain followed by \<open>subdomains\<close> entries \<open><prefix>.<base>\<close>, each prefix having exactly
  \<open>prefixLen\<close> characters from lowercase letters and digits.
\<close>

theorem planDomains_expand:
  assumes "unitInterval rnd"
  shows "\<exists>pss. fst (planDomains rnd k baseDomains subdomains prefixLen) = expand baseDomains pss
           \<and> length pss = length baseDomains
           \<and> (\<forall>ps \<in> set pss. randomPrefixes subdomains prefixLen ps)"
  using domainLoop_spec [OF assms, of k baseDomains subdomains prefixLen "[]"]
  by (auto simp add: planDomains_def)


theorem planDomains_expand_witness:
  "unitInterval exampleRandom
   \<and> planDomains exampleRandom 0 [''a.com''] 2 5
       = ([''a.com'', ''ahov2.a.com'', ''9gnu1.a.com''], 10)
   \<and> (\<exists>pss. fst (planDomains exampleRandom 0 [''a.com''] 2 5) = expand [''a.com''] pss
           \<and> length pss = length [''a.com'']
           \<and> (\<forall>ps \<in> set pss. randomPrefixes 2 5 ps))"
  using planDomains_expand [OF unitInterval_exampleRandom, of 0 "[''a.com'']" 2 5]
    unitInterval_exampleRandom planDomains_example
  by blast

subsection \<open>Conflicting names\<close>

lemma roundToDouble_small: "x \<le> 2 ^ 53 \<Longrightarrow> roundToDouble x = x"
  by (simp add: roundToDouble_def)

lemma toNumber_exact:
  assumes "\<bar>x\<bar> \<le> 2 ^ 53"
  shows "toNumber x = Finite x"
proof -
  have le: "nat \<bar>x\<bar> \<le> 2 ^ 53"
    using assms by (simp add: nat_le_iff)
  have r: "roundToDouble (nat \<bar>x\<bar>) = nat \<bar>x\<bar>"
    using le by (rule roundToDouble_small)
  have "(2::nat) ^ 53 < 2 ^ 1024"
    by simp
  then have small: "\<not> (2::nat) ^ 1024 \<le> nat \<bar>x\<bar>"
    using le by linarith
  have "sgn x * int (nat \<bar>x\<bar>) = x"
    by (simp add: mult_sgn_abs)
  then show ?thesis
    using small by (simp add: toNumber_def r)
qed

lemma numToString_exact: "\<bar>x\<bar> \<le> 2 ^ 53 \<Longrightarrow> numToString (Finite x) = decimal x"
  by (simp add: numToString_def)

lemma name_exact:
  assumes "0 \<le> n" "n + int i \<le> 2 ^ 53"
  shows "numToString (addNumber (Finite n) (int i)) = decimal (n + int i)"
proof -
  have "\<bar>n + int i\<bar> \<le> 2 ^ 53"
    using assms by simp
  then show ?thesis
    by (simp add: addNumber_def toNumber_exact numToString_exact)
qed

lemma toNumber_nonneg: "0 \<le> x \<Longrightarrow> toNumber x = Finite y \<Longrightarrow> 0 \<le> y"
  by (auto simp add: toNumber_def Let_def sgn_if split: if_splits)

lemma extractSiteNumber_nonneg: "extractSiteNumber s = Inr (Finite n) \<Longrightarrow> 0 \<le> n"
  using toNumber_nonneg [of "int (decimalValue (trailingDigits s))" n]
  by (auto simp add: extractSiteNumber_def parseInt_def Let_def split: if_splits)

lemma validateLoop_filter:
  "validateLoop w r b t i acc =
     acc @ filter (\<lambda>name. pathExists w (r @ [name]))
             (map (\<lambda>j. ''site'' @ numToString (addNumber b (int j))) [i..<t])"
proof (induction w r b t i acc rule: validateLoop.induct)
  case (1 w r b t i acc)
  show ?case
  proof (cases "i < t")
    case True
    then have up: "[i..<t] = i # [Suc i..<t]"
      by (simp add: upt_conv_Cons)
    show ?thesis
      using True 1 [OF True refl refl]
      by (subst validateLoop.simps)
        (cases "pathExists w (r @ [''site'' @ numToString (addNumber b (int i))])"; simp add: up Let_def)
  next
    case False
    then show ?thesis
      by (subst validateLoop.simps) simp
  qed
qed

lemma names_exact:
  assumes "0 \<le> n" "n + int K \<le> 2 ^ 53"
  shows "map (\<lambda>j. ''site'' @ numToString (addNumber (Finite n) (int j))) [0..<K] = siteNames n K"
  unfolding siteNames_def
proof (rule map_cong [OF refl])
  fix j
  assume "j \<in> set [0..<K]"
  then have "n + int j \<le> 2 ^ 53"
    using assms(2) by simp
  then show "''site'' @ numToString (addNumber (Finite n) (int j)) = ''site'' @ decimal (n + int j)"
    using assms(1) by (simp add: name_exact)
qed

lemma extractSiteNumber_site10: "extractSiteNumber ''site10'' = Inr (Finite 10)"
  by (simp add: extractSiteNumber_def trailingDigits_def isDigit_def parseInt_def
      decimalValue_def digitValue_def toNumber_exact)

lemma siteNames_10_3: "siteNames 10 3 = [''site10'', ''site11'', ''site12'']"
  by (simp add: siteNames_def decimal_def digitsOf.simps upt_conv_Cons)

text \<open>
  Claim C7, amended. For a starting name with trailing integer \<open>n\<close> and a count \<open>K\<close> with
  \<open>n + K \<le> 2^53\<close>, \<open>validateProjectNames\<close> returns the names among the \<open>K\<close> names
  \<open>site(n + i)\<close> that exist in the workspace directory, in order: none when none of them
  exists, and otherwise exactly those that exist. It returns names only; it has no access
  to change the file system or the names.
\<close>

theorem validateProjectNames_conflicts:
  assumes "extractSiteNumber startingName = Inr (Finite n)" and "n + int K \<le> 2 ^ 53"
  shows "\<exists>conflicts.
           validateProjectNames w wsRoot startingName K = Inr conflicts
         \<and> conflicts = filter (\<lambda>name. pathExists w (wsRoot @ [name])) (siteNames n K)
         \<and> (conflicts = [] \<longleftrightarrow> (\<forall>name \<in> set (siteNames n K). \<not> pathExists w (wsRoot @ [name])))
         \<and> set conflicts = {name \<in> set (siteNames n K). pathExists w (wsRoot @ [name])}"
proof -
  have n: "0 \<le> n"
    using assms(1) by (rule extractSiteNumber_nonneg)
  have "validateProjectNames w wsRoot startingName K
      = Inr (filter (\<lambda>name. pathExists w (wsRoot @ [name])) (siteNames n K))"
    unfolding validateProjectNames_def validateLoop_filter
    by (simp only: assms(1) sum.case names_exact [OF n assms(2)] append_Nil)
  then show ?thesis
    by (simp add: filter_empty_conv)
qed

theorem validateProjectNames_conflicts_witness:
  "extractSiteNumber ''site10'' = Inr (Finite 10) \<and> (10 :: int) + int 3 \<le> 2 ^ 53
   \<and> validateProjectNames exampleWorkspace [''ws''] ''site10'' 3 = Inr [''site11'']
   \<and> validateProjectNames \<lparr>files = Map.empty, calls = 0, generatedSites = []\<rparr> [''ws''] ''site10'' 3
       = Inr []"
proof -
  have b: "(10 :: int) + int 3 \<le> 2 ^ 53"
    by simp
  show ?thesis
    using validateProjectNames_conflicts [OF extractSiteNumber_site10 b, of exampleWorkspace "[''ws'']"]
      validateProjectNames_conflicts [OF extractSiteNumber_site10 b,
        of "\<lparr>files = Map.empty, calls = 0, generatedSites = []\<rparr>" "[''ws'']"]
    by (simp add: extractSiteNumber_site10 siteNames_10_3 exampleWorkspace_def pathExists_def)
qed

lemma extractSiteNumber_large: "extractSiteNumber ''site9007199254740991'' = Inr (Finite 9007199254740991)"
  by (simp add: extractSiteNumber_def trailingDigits_def isDigit_def parseInt_def
      decimalValue_def digitValue_def toNumber_exact)

lemma siteNames_large:
  "siteNames 9007199254740991 3
     = [''site9007199254740991'', ''site9007199254740992'', ''site9007199254740993'']"
  by (simp add: siteNames_def decimal_def digitsOf.simps upt_conv_Cons)

lemma toNumber_above: "toNumber 9007199254740993 = Finite 9007199254740992"
  by (simp add: toNumber_def roundToDouble_def bits.simps)

lemma validateLoop_large:
  "validateLoop exampleLarge [''ws''] (Finite 9007199254740991) 3 0 [] = []"
  apply (simp only: validateLoop_filter)
  apply (simp add: upt_conv_Cons)
  apply (simp add: addNumber_def toNumber_exact toNumber_above)
  apply (simp add: numToString_def decimal_def digitsOf.simps)
  apply (simp add: pathExists_def exampleLarge_def)
  done

text \<open>
  Without the bound the claim fails: from \<open>2^53 - 1\<close> the three names are those of
  \<open>2^53 - 1\<close>, \<open>2^53\<close> and \<open>2^53 + 1\<close>, but the sum \<open>2^53 - 1 + 2\<close> is rounded to \<open>2^53\<close>,
  so that the existing site \<open>2^53 + 1\<close> is not looked at and is not reported.
\<close>

theorem validateProjectNames_conflicts_counterexample:
  "extractSiteNumber ''site9007199254740991'' = Inr (Finite 9007199254740991)
   \<and> siteNames 9007199254740991 3
       = [''site9007199254740991'', ''site9007199254740992'', ''site9007199254740993'']
   \<and> pathExists exampleLarge [''ws'', ''site9007199254740993'']
   \<and> validateProjectNames exampleLarge [''ws''] ''site9007199254740991'' 3 = Inr []"
proof -
  have "pathExists exampleLarge [''ws'', ''site9007199254740993'']"
    by (simp add: pathExists_def exampleLarge_def)
  moreover have "validateProjectNames exampleLarge [''ws''] ''site9007199254740991'' 3 = Inr []"
    by (simp add: validateProjectNames_def extractSiteNumber_large validateLoop_large)
  ultimately show ?thesis
    using extractSiteNumber_large siteNames_large by blast
qed

subsection \<open>Finding the template\<close>

lemma levels_Nil: "levels [] = [[]]"
  by (simp add: levels.simps)

lemma levels_Cons: "d \<noteq> [] \<Longrightarrow> levels d = d # levels (butlast d)"
  by (subst levels.simps) simp

lemma butlast_fixed: "butlast d = d \<longleftrightarrow> d = []"
  by (cases d rule: rev_cases) auto

lemma findLoop_search:
  "findLoop w sd t cur n =
     (case find (\<lambda>d. pathExists w (joinPath d t)) (take n (levels cur)) of
        Some d \<Rightarrow> Some (joinPath d t)
      | None \<Rightarrow>
          if [] \<in> set (take n (levels cur)) \<and> pathExists w (joinPath (butlast sd @ [''wjspark'']) t)
          then Some (joinPath (butlast sd @ [''wjspark'']) t)
          else None)"
proof (induction n arbitrary: cur)
  case 0
  then show ?case by simp
next
  case (Suc n)
  show ?case
  proof (cases "cur = []")
    case True
    then show ?thesis
      by (simp add: levels_Nil)
  next
    case False
    then have lv: "take (Suc n) (levels cur) = cur # take n (levels (butlast cur))"
      by (simp add: levels_Cons)
    show ?thesis
    proof (cases "pathExists w (joinPath cur t)")
      case True
      then show ?thesis
        by (simp add: lv)
    next
      case no: False
      have a: "findLoop w sd t cur (Suc n) = findLoop w sd t (butlast cur) n"
        using no False by (simp add: butlast_fixed)
      have b: "find (\<lambda>d. pathExists w (joinPath d t)) (take (Suc n) (levels cur))
          = find (\<lambda>d. pathExists w (joinPath d t)) (take n (levels (butlast cur)))"
        using no by (simp add: lv)
      have c: "[] \<in> set (take (Suc n) (levels cur)) \<longleftrightarrow> [] \<in> set (take n (levels (butlast cur)))"
        using False by (auto simp add: lv)
      show ?thesis
        unfolding a b c by (rule Suc.IH)
    qed
  qed
qed

lemma joinPath_site31: "joinPath d ''site31'' = d @ [''site31'']"
  by (simp add: joinPath_def joinStep_def)

text \<open>
  Claim C4, amended. \<open>findTemplatePath\<close> returns \<open><level>/templateName\<close> for the first of
  the levels workspace root, parent, grandparent, \<dots> at which that path exists, where it
  looks at five levels at most, the workspace root being the first: it walks up four
  parent directories at most. When none of these levels has the template and the root of
  the file system is among them, it checks \<open>templateName\<close> inside \<open>wjspark\<close> next to the
  workspace root and returns that path if it exists; otherwise it reports that nothing
  was found.
\<close>

theorem findTemplatePath_locate:
  "findTemplatePath w wsRoot name = locate w wsRoot name"
  by (simp add: findTemplatePath_def locate_def searchLevels_def findLoop_search)

text \<open>
  The claim as it is worded walks up five parent levels after the workspace root. From a
  workspace root five levels deep that search reaches the root directory and finds the
  template there; the program has stopped one level below and finds nothing.
\<close>

theorem findTemplatePath_locate_counterexample:
  "findTemplatePath exampleTree [''x'', ''b'', ''c'', ''d'', ''e''] ''site31'' = None
   \<and> locateAsStated exampleTree [''x'', ''b'', ''c'', ''d'', ''e''] ''site31'' = Some [''site31'']"
  by (simp add: findTemplatePath_def locateAsStated_def searchLevels_def levels.simps joinPath_site31
      eval_nat_numeral pathExists_def exampleTree_def)

text \<open>
  Four searches: a template found two levels up; a template found in the root directory
  from four levels deep; the last check in \<open>wjspark\<close>; and a template name with \<open>..\<close>.
\<close>

lemma findTemplatePath_examples:
  "findTemplatePath exampleTree [''a'', ''b'', ''c''] ''site31'' = Some [''a'', ''site31'']"
  "findTemplatePath exampleTree [''x'', ''b'', ''c'', ''d''] ''site31'' = Some [''site31'']"
  "findTemplatePath (exampleTree\<lparr>files := (files exampleTree)([''site31''] := None)\<rparr>)
     [''ws''] ''site31'' = Some [''wjspark'', ''site31'']"
  "findTemplatePath exampleTree [''a'', ''b''] ''../site31'' = Some [''a'', ''site31'']"
  by (simp_all add: findTemplatePath_def joinPath_def joinStep_def eval_nat_numeral pathExists_def
      exampleTree_def)

subsection \<open>The games of a project\<close>

lemma mset_take_subseteq: "mset (take n xs) \<subseteq># mset xs"
proof -
  have "mset xs = mset (take n xs) + mset (drop n xs)"
    by (metis append_take_drop_id mset_append)
  then show ?thesis by simp
qed

lemma slice0_count: "0 \<le> n \<Longrightarrow> slice0 a (Some n) = take (nat n) a"
  by (simp add: slice0_def)

text \<open>
  Claim C3. When the catalog file of the project parses and its \<open>games\<close> field is an
  array, \<open>processGamesJson\<close> with a requested count \<open>gamesCount \<ge> 0\<close> writes a catalog whose
  games all carry the tag \<open>html5\<close>, are at most \<open>gamesCount\<close>, and are exactly
  \<open>min gamesCount eligible\<close> many, where \<open>eligible\<close> is the number of games of the catalog
  tagged \<open>html5\<close>; they are taken from those games without repetition.
\<close>

theorem processGamesJson_selection:
  assumes "unitInterval (random e)"
    and "readJson e w (projectPath @ [''data'', ''games.json'']) = Inr gd"
    and "games gd = Games catalog"
    and "0 \<le> gamesCount"
  shows "\<exists>selected k.
           processGamesJson e w projectPath (Some gamesCount)
             = w\<lparr>calls := k,
                 files := (files w)(projectPath @ [''data'', ''games.json''] \<mapsto>
                   File (stringifyJson e (gd\<lparr>games := Games selected\<rparr>)))\<rparr>
         \<and> (\<forall>g \<in> set selected. isHtml5 g)
         \<and> int (length selected) \<le> gamesCount
         \<and> int (length selected) = min gamesCount (int (length (filter isHtml5 catalog)))
         \<and> mset selected \<subseteq># mset (filter isHtml5 catalog)"
proof -
  obtain shuffled k where sh: "shuffle (random e) (calls w) (filter isHtml5 catalog) = (shuffled, k)"
    by (cases "shuffle (random e) (calls w) (filter isHtml5 catalog)")
  have ms: "mset shuffled = mset (filter isHtml5 catalog)"
    using shuffle_mset [OF assms(1), of "calls w" "filter isHtml5 catalog"] sh by simp
  let ?selected = "take (nat gamesCount) shuffled"
  have 1: "processGamesJson e w projectPath (Some gamesCount)
             = w\<lparr>calls := k,
                 files := (files w)(projectPath @ [''data'', ''games.json''] \<mapsto>
                   File (stringifyJson e (gd\<lparr>games := Games ?selected\<rparr>)))\<rparr>"
    using assms(2,3,4) sh by (simp add: processGamesJson_def slice0_count)
  have "set shuffled = set (filter isHtml5 catalog)"
    using mset_eq_setD [OF ms] .
  then have 2: "\<forall>g \<in> set ?selected. isHtml5 g"
    using set_take_subset [of "nat gamesCount" shuffled] by auto
  have len: "length shuffled = length (filter isHtml5 catalog)"
    using mset_eq_length [OF ms] .
  have 3: "int (length ?selected) \<le> gamesCount"
    using assms(4) by simp
  have 4: "int (length ?selected) = min gamesCount (int (length (filter isHtml5 catalog)))"
    using assms(4) len by simp
  have 5: "mset ?selected \<subseteq># mset (filter isHtml5 catalog)"
    using mset_take_subseteq [of "nat gamesCount" shuffled] ms by simp
  show ?thesis
    using 1 2 3 4 5 by blast
qed

theorem processGamesJson_selection_witness:
  "unitInterval (random exampleEnv)
   \<and> readJson exampleEnv exampleSite ([''ws'', ''site31''] @ [''data'', ''games.json'']) = Inr exampleGames
   \<and> games exampleGames = Games exampleCatalog
   \<and> (0 :: int) \<le> 2
   \<and> (\<exists>selected k.
           processGamesJson exampleEnv exampleSite [''ws'', ''site31''] (Some 2)
             = exampleSite\<lparr>calls := k,
                 files := (files exampleSite)([''ws'', ''site31''] @ [''data'', ''games.json''] \<mapsto>
                   File (stringifyJson exampleEnv (exampleGames\<lparr>games := Games selected\<rparr>)))\<rparr>
         \<and> (\<forall>g \<in> set selected. isHtml5 g)
         \<and> int (length selected) \<le> 2
         \<and> int (length selected) = min 2 (int (length (filter isHtml5 exampleCatalog)))
         \<and> mset selected \<subseteq># mset (filter isHtml5 exampleCatalog))"
proof -
  have h1: "unitInterval (random exampleEnv)"
    by (simp add: exampleEnv_def unitInterval_exampleRandom)
  have h2: "readJson exampleEnv exampleSite ([''ws'', ''site31''] @ [''data'', ''games.json''])
      = Inr exampleGames"
    by (simp add: readJson_def exampleEnv_def exampleSite_def)
  have h3: "games exampleGames = Games exampleCatalog"
    by (simp add: exampleGames_def)
  have h4: "(0 :: int) \<le> 2"
    by simp
  show ?thesis
    using processGamesJson_selection [OF h1 h2 h3 h4] h1 h2 h3 h4 by blast
qed

text \<open>The same call, evaluated: of the games \<open>A\<close>, \<open>D\<close>, \<open>E\<close> it writes \<open>D\<close> and \<open>E\<close>.\<close>

lemma processGamesJson_example:
  "files (processGamesJson exampleEnv exampleSite [''ws'', ''site31''] (Some 2))
     [''ws'', ''site31'', ''data'', ''games.json''] = Some (File ''DE'')"
  by (simp add: processGamesJson_def readJson_def exampleEnv_def exampleSite_def exampleGames_def
      exampleCatalog_def isHtml5_def shuffle_def swap_def randomIndex_def exampleRandom_def
      slice0_def)

subsection \<open>The names of the generated projects\<close>

lemma copy_generatedSites:
  "copy w src dest = Inr w1 \<Longrightarrow> generatedSites w1 = generatedSites w"
  by (auto simp add: copy_def split: if_splits)

lemma updateSiteConfig_generatedSites:
  "updateSiteConfig e w p name d = Inr w1 \<Longrightarrow> generatedSites w1 = generatedSites w"
  by (auto simp add: updateSiteConfig_def Let_def split: option.splits node.splits)

lemma processGamesJson_generatedSites:
  "generatedSites (processGamesJson e w p c) = generatedSites w"
  by (simp add: processGamesJson_def Let_def split: sum.splits gamesField.splits prod.splits)

lemma projectLoop_names:
  assumes "- 1 \<le> c" and "c + int (length doms) \<le> 2 ^ 53"
  shows "\<exists>m \<le> length doms.
     map projectName (generatedSites (snd (projectLoop e t pc doms (Finite c) i w)))
       = map projectName (generatedSites w) @ map (\<lambda>j. ''site'' @ decimal (c + 1 + int j)) [0..<m]
     \<and> (fst (projectLoop e t pc doms (Finite c) i w) = Inr () \<longrightarrow> m = length doms)"
  using assms
proof (induction doms arbitrary: c i w)
  case Nil
  then show ?case by simp
next
  case (Cons d doms)
  have small: "\<bar>c + 1\<bar> \<le> 2 ^ 53"
    using Cons.prems by simp
  have next_c: "addNumber (Finite c) 1 = Finite (c + 1)"
    using small by (simp add: addNumber_def toNumber_exact)
  have text_c: "numToString (Finite (c + 1)) = decimal (c + 1)"
    using small by (rule numToString_exact)
  let ?name = "''site'' @ decimal (c + 1)"
  let ?path = "workspaceRoot e @ [?name]"
  let ?f = "\<lambda>j. ''site'' @ decimal (c + 1 + int j)"
  have stop: ?case if "projectLoop e t pc (d # doms) (Finite c) i w = (Inl err, w1)"
      "generatedSites w1 = generatedSites w" for err w1
    using that by (intro exI [of _ 0]) simp
  show ?case
  proof (cases "pathExists w ?path")
    case True
    then show ?thesis
      by (intro stop [of ProjectExists w]) (simp_all add: Let_def next_c text_c)
  next
    case free: False
    show ?thesis
    proof (cases "copy w t ?path")
      case (Inl err)
      then show ?thesis
        using free by (intro stop [of err w]) (simp_all add: Let_def next_c text_c)
    next
      case copied: (Inr w1)
      show ?thesis
      proof (cases "updateSiteConfig e w1 ?path ?name d")
        case (Inl err)
        then show ?thesis
          using free copied copy_generatedSites [OF copied]
          by (intro stop [of err w1]) (simp_all add: Let_def next_c text_c)
      next
        case (Inr w2)
        let ?w3 = "processGamesJson e w2 ?path (countAt pc i)"
        let ?w4 = "?w3\<lparr>generatedSites := generatedSites ?w3 @
                       [\<lparr>projectName = ?name, path = ?path, domain = d\<rparr>]\<rparr>"
        have step: "projectLoop e t pc (d # doms) (Finite c) i w
            = projectLoop e t pc doms (Finite (c + 1)) (Suc i) ?w4"
          using free copied Inr by (simp add: Let_def next_c text_c)
        have sites: "map projectName (generatedSites ?w4) = map projectName (generatedSites w) @ [?name]"
          using copy_generatedSites [OF copied] updateSiteConfig_generatedSites [OF Inr]
          by (simp add: processGamesJson_generatedSites)
        have b1: "- 1 \<le> c + 1" and b2: "c + 1 + int (length doms) \<le> 2 ^ 53"
          using Cons.prems by simp_all
        obtain m where m: "m \<le> length doms"
          "map projectName (generatedSites (snd (projectLoop e t pc doms (Finite (c + 1)) (Suc i) ?w4)))
             = map projectName (generatedSites ?w4)
               @ map (\<lambda>j. ''site'' @ decimal (c + 1 + 1 + int j)) [0..<m]"
          "fst (projectLoop e t pc doms (Finite (c + 1)) (Suc i) ?w4) = Inr () \<longrightarrow> m = length doms"
          using Cons.IH [OF b1 b2, of "Suc i" ?w4] by blast
        have shift: "map ?f [0..<Suc m] = ?name # map (\<lambda>j. ''site'' @ decimal (c + 1 + 1 + int j)) [0..<m]"
          by (simp add: map_upt_Suc algebra_simps del: upt_Suc)
        show ?thesis
          unfolding step
          using m sites shift by (intro exI [of _ "Suc m"]) (simp del: upt_Suc)
      qed
    qed
  qed
qed

lemma length_subdomainLoop:
  "length (fst (subdomainLoop rnd k d pl n acc)) = length acc + n"
  by (induction n arbitrary: k acc) (simp_all split: prod.splits)

lemma length_domainLoop:
  "length (fst (domainLoop rnd k ds sc pl acc)) = length acc + length ds * (1 + sc)"
proof (induction ds arbitrary: k acc)
  case Nil
  then show ?case by simp
next
  case (Cons d ds)
  show ?case
  proof (cases "sc > 0")
    case True
    obtain acc1 k1 where s: "subdomainLoop rnd k d pl sc (acc @ [d]) = (acc1, k1)"
      by (cases "subdomainLoop rnd k d pl sc (acc @ [d])")
    have "length acc1 = length acc + 1 + sc"
      using length_subdomainLoop [of rnd k d pl sc "acc @ [d]"] s by simp
    then show ?thesis
      using True s Cons.IH [of k1 acc1] by simp
  next
    case False
    then show ?thesis
      using Cons.IH [of k "acc @ [d]"] by simp
  qed
qed

lemma length_planDomains:
  "length (fst (planDomains rnd k ds sc pl)) = length ds * (1 + sc)"
  by (simp add: planDomains_def length_domainLoop)

lemma generateProjects_names:
  assumes "extractSiteNumber (startingSiteName a) = Inr (Finite n)"
    and "n + int (length (domains (conf e)) * (1 + subdomainCount a)) \<le> 2 ^ 53"
  shows "\<exists>m \<le> length (domains (conf e)) * (1 + subdomainCount a).
     map projectName (generatedSites (snd (generateProjects e w a)))
       = map projectName (generatedSites w)
         @ take m (siteNames n (length (domains (conf e)) * (1 + subdomainCount a)))
     \<and> (fst (generateProjects e w a) = Inr () \<longrightarrow> m = length (domains (conf e)) * (1 + subdomainCount a))"
proof -
  let ?total = "length (domains (conf e)) * (1 + subdomainCount a)"
  have n: "0 \<le> n"
    using assms(1) by (rule extractSiteNumber_nonneg)
  define T where "T = int ?total"
  have "0 \<le> T" and "n + T \<le> 2 ^ 53"
    using assms(2) by (simp_all add: T_def)
  then have "\<bar>n - 1\<bar> \<le> 2 ^ 53"
    using n by simp
  then have start_c: "addNumber (Finite n) (- 1) = Finite (n - 1)"
    by (simp add: addNumber_def toNumber_exact)
  obtain doms k1 where pd: "planDomains (random e) (calls w) (domains (conf e)) (subdomainCount a)
      (prefixLength a) = (doms, k1)"
    by (cases "planDomains (random e) (calls w) (domains (conf e)) (subdomainCount a) (prefixLength a)")
  have len: "length doms = ?total"
    using length_planDomains [of "random e" "calls w" "domains (conf e)" "subdomainCount a" "prefixLength a"] pd
    by simp
  show ?thesis
  proof (cases "planCounts (random e) k1 (gamesMin a) (gamesMax a) ?total")
    case (Inl err)
    then have "generateProjects e w a = (Inl err, w\<lparr>calls := k1\<rparr>)"
      using assms(1) pd by (simp add: generateProjects_def Let_def)
    then show ?thesis
      by (intro exI [of _ 0]) simp
  next
    case (Inr r)
    obtain pc k2 where r: "r = (pc, k2)" by (cases r)
    have gp: "generateProjects e w a
        = projectLoop e (templatePath a) pc doms (Finite (n - 1)) 0 (w\<lparr>calls := k2\<rparr>)"
      using assms(1) pd Inr r by (simp add: generateProjects_def Let_def start_c)
    have b1: "- 1 \<le> n - 1" and b2: "n - 1 + int (length doms) \<le> 2 ^ 53"
      using n assms(2) len by simp_all
    obtain m where m: "m \<le> length doms"
      "map projectName (generatedSites (snd (projectLoop e (templatePath a) pc doms (Finite (n - 1)) 0 (w\<lparr>calls := k2\<rparr>))))
         = map projectName (generatedSites (w\<lparr>calls := k2\<rparr>))
           @ map (\<lambda>j. ''site'' @ decimal (n - 1 + 1 + int j)) [0..<m]"
      "fst (projectLoop e (templatePath a) pc doms (Finite (n - 1)) 0 (w\<lparr>calls := k2\<rparr>)) = Inr () \<longrightarrow> m = length doms"
      using projectLoop_names [OF b1 b2, of e "templatePath a" pc 0 "w\<lparr>calls := k2\<rparr>"] by blast
    have "take m (siteNames n ?total) = map (\<lambda>j. ''site'' @ decimal (n + int j)) [0..<m]"
      using m(1) len by (simp add: siteNames_def take_map)
    then show ?thesis
      unfolding gp using m len by (intro exI [of _ m]) simp
  qed
qed

lemma trailingDigits_append:
  assumes "\<forall>c \<in> set digits. isDigit c" "front = [] \<or> \<not> isDigit (last front)"
  shows "trailingDigits (front @ digits) = digits"
proof -
  have "takeWhile isDigit (rev front) = []"
    using assms(2) by (cases front rule: rev_cases) auto
  moreover have "takeWhile isDigit (rev digits @ rev front) = rev digits @ takeWhile isDigit (rev front)"
    using assms(1) by (intro takeWhile_append2) simp
  ultimately show ?thesis
    by (simp add: trailingDigits_def)
qed

lemma decimalValue_leading_zero: "decimalValue (CHR ''0'' # digits) = decimalValue digits"
  by (simp add: decimalValue_def digitValue_def)

lemma extractSiteNumber_mysite007: "extractSiteNumber ''mysite007'' = Inr (Finite 7)"
  by (simp add: extractSiteNumber_def trailingDigits_def isDigit_def parseInt_def
      decimalValue_def digitValue_def toNumber_exact)

lemmas example_defs = exampleEnv_def exampleSite_def exampleAnswers_def config_def
  exampleGames_def exampleCatalog_def exampleRandom_def exampleConfigText_def

lemma generateProjects_example:
  "fst (generateProjects exampleEnv exampleSite exampleAnswers) = Inr ()
   \<and> map projectName (generatedSites (snd (generateProjects exampleEnv exampleSite exampleAnswers)))
       = [''site7'', ''site8'']"
  by (simp add: generateProjects_def extractSiteNumber_mysite007 example_defs
      planDomains_def generateRandomPrefix_def randomIndex_def chars_def charAt_def prefixLoop_numeral
      planCounts_def shuffle_def swap_def upto.simps
      Let_def addNumber_def toNumber_exact numToString_exact decimal_def digitsOf.simps
      pathExists_def copy_def copyFilter_def
      updateSiteConfig_def processGamesJson_def readJson_def countAt_def isHtml5_def slice0_def)

lemma siteNames_7_5: "siteNames 7 5 = [''site7'', ''site8'', ''site9'', ''site10'', ''site11'']"
  by (simp add: siteNames_def decimal_def digitsOf.simps upt_conv_Cons)

text \<open>
  Claim C10, amended. Let the starting name end with the digit run \<open>digits\<close> (not empty,
  not preceded by a digit) of value \<open>n\<close>; a leading zero does not change this value, and
  whatever precedes the digits plays no part. If \<open>n + K \<le> 2^53\<close>, the site number is \<open>n\<close>
  and the conflict check looks at the names \<open>site(n + i)\<close> for \<open>i = 0, \<dots>, K - 1\<close>. If \<open>n\<close>
  plus the number of projects is at most \<open>2^53\<close>, the projects that \<open>generateProjects\<close>
  creates are named by the first \<open>m\<close> of these names, all of them when it succeeds.
\<close>

theorem site_names_from_trailing_integer:
  assumes "digits \<noteq> []" and "\<forall>c \<in> set digits. isDigit c"
    and "front = [] \<or> \<not> isDigit (last front)"
  shows "(int (decimalValue digits) + int K \<le> 2 ^ 53 \<longrightarrow>
            extractSiteNumber (front @ digits) = Inr (Finite (int (decimalValue digits)))
          \<and> validateProjectNames w wsRoot (front @ digits) K
              = Inr (filter (\<lambda>name. pathExists w (wsRoot @ [name]))
                      (siteNames (int (decimalValue digits)) K)))
       \<and> decimalValue (CHR ''0'' # digits) = decimalValue digits
       \<and> (startingSiteName a = front @ digits \<longrightarrow>
            int (decimalValue digits) + int (length (domains (conf e)) * (1 + subdomainCount a)) \<le> 2 ^ 53 \<longrightarrow>
            (\<exists>m \<le> length (domains (conf e)) * (1 + subdomainCount a).
               map projectName (generatedSites (snd (generateProjects e w0 a)))
                 = map projectName (generatedSites w0)
                   @ take m (siteNames (int (decimalValue digits))
                       (length (domains (conf e)) * (1 + subdomainCount a)))
               \<and> (fst (generateProjects e w0 a) = Inr ()
                    \<longrightarrow> m = length (domains (conf e)) * (1 + subdomainCount a))))"
proof -
  let ?n = "int (decimalValue digits)"
  have ex: "extractSiteNumber (front @ digits) = Inr (Finite ?n)" if "?n + int k \<le> 2 ^ 53" for k
  proof -
    have "\<bar>?n\<bar> \<le> 2 ^ 53"
      using that by simp
    then show ?thesis
      using assms by (simp add: extractSiteNumber_def trailingDigits_append parseInt_def toNumber_exact)
  qed
  have 1: "extractSiteNumber (front @ digits) = Inr (Finite ?n)
          \<and> validateProjectNames w wsRoot (front @ digits) K
              = Inr (filter (\<lambda>name. pathExists w (wsRoot @ [name])) (siteNames ?n K))"
    if b: "?n + int K \<le> 2 ^ 53"
  proof -
    have "validateProjectNames w wsRoot (front @ digits) K
        = Inr (filter (\<lambda>name. pathExists w (wsRoot @ [name])) (siteNames ?n K))"
      unfolding validateProjectNames_def validateLoop_filter
      by (simp only: ex [OF b] sum.case names_exact [OF _ b] of_nat_0_le_iff append_Nil)
    then show ?thesis
      using ex [OF b] by simp
  qed
  have 3: "\<exists>m \<le> length (domains (conf e)) * (1 + subdomainCount a).
               map projectName (generatedSites (snd (generateProjects e w0 a)))
                 = map projectName (generatedSites w0)
                   @ take m (siteNames ?n (length (domains (conf e)) * (1 + subdomainCount a)))
               \<and> (fst (generateProjects e w0 a) = Inr ()
                    \<longrightarrow> m = length (domains (conf e)) * (1 + subdomainCount a))"
    if s: "startingSiteName a = front @ digits"
      and b: "?n + int (length (domains (conf e)) * (1 + subdomainCount a)) \<le> 2 ^ 53"
  proof (rule generateProjects_names)
    show "extractSiteNumber (startingSiteName a) = Inr (Finite ?n)"
      unfolding s by (rule ex [OF b])
    show "?n + int (length (domains (conf e)) * (1 + subdomainCount a)) \<le> 2 ^ 53"
      by (rule b)
  qed
  show ?thesis
    using 1 3 decimalValue_leading_zero by blast
qed

theorem site_names_from_trailing_integer_witness:
  "''007'' \<noteq> [] \<and> list_all isDigit ''007'' \<and> \<not> isDigit (last ''mysite'')
   \<and> startingSiteName exampleAnswers = ''mysite'' @ ''007''
   \<and> decimalValue ''007'' = 7
   \<and> extractSiteNumber (''mysite'' @ ''007'') = Inr (Finite 7)
   \<and> validateProjectNames exampleWorkspace [''ws''] (''mysite'' @ ''007'') 5 = Inr [''site11'']
   \<and> fst (generateProjects exampleEnv exampleSite exampleAnswers) = Inr ()
   \<and> map projectName (generatedSites (snd (generateProjects exampleEnv exampleSite exampleAnswers)))
       = [''site7'', ''site8'']"
proof -
  have h1: "''007'' \<noteq> []"
    by simp
  have h2: "\<forall>c \<in> set ''007''. isDigit c"
    by (simp add: isDigit_def)
  have h3: "''mysite'' = [] \<or> \<not> isDigit (last ''mysite'')"
    by (simp add: isDigit_def)
  have p: "decimalValue ''007'' = 7"
    by (simp add: decimalValue_def digitValue_def)
  have a: "startingSiteName exampleAnswers = ''mysite'' @ ''007''"
    by (simp add: exampleAnswers_def)
  note t = site_names_from_trailing_integer [OF h1 h2 h3, where w = exampleWorkspace
      and wsRoot = "[''ws'']" and K = 5 and a = exampleAnswers and e = exampleEnv and ?w0.0 = exampleSite]
  have 1: "extractSiteNumber (''mysite'' @ ''007'') = Inr (Finite 7)"
    using t p by simp
  have 2: "validateProjectNames exampleWorkspace [''ws''] (''mysite'' @ ''007'') 5 = Inr [''site11'']"
    using t by (simp add: p siteNames_7_5 exampleWorkspace_def pathExists_def)
  have h2': "list_all isDigit ''007''"
    by (simp add: isDigit_def)
  have h3': "\<not> isDigit (last ''mysite'')"
    by (simp add: isDigit_def)
  show ?thesis
    using h1 h2' h3' a p 1 2 generateProjects_example by blast
qed

lemma extractSiteNumber_2_53: "extractSiteNumber ''site9007199254740992'' = Inr (Finite 9007199254740992)"
  by (simp add: extractSiteNumber_def trailingDigits_def isDigit_def parseInt_def
      decimalValue_def digitValue_def toNumber_exact)

lemma generateProjects_large:
  "fst (generateProjects exampleEnv exampleSite exampleLargeAnswers) = Inl ProjectExists
   \<and> map projectName (generatedSites (snd (generateProjects exampleEnv exampleSite exampleLargeAnswers)))
       = [''site9007199254740992'']"
  by (simp add: generateProjects_def exampleLargeAnswers_def extractSiteNumber_2_53 example_defs
      planDomains_def generateRandomPrefix_def randomIndex_def chars_def charAt_def prefixLoop_numeral
      planCounts_def shuffle_def swap_def upto.simps
      Let_def addNumber_def toNumber_exact toNumber_above numToString_exact decimal_def digitsOf.simps
      pathExists_def copy_def copyFilter_def
      updateSiteConfig_def processGamesJson_def readJson_def countAt_def isHtml5_def slice0_def)

text \<open>
  Without the bound the claim fails: two projects started at \<open>site9007199254740992\<close>
  (\<open>2^53\<close>) are not named by \<open>2^53\<close> and \<open>2^53 + 1\<close>: the counter stays at \<open>2^53\<close>, the second
  name repeats the first and the run stops at the folder that exists. And the site number
  of \<open>site9007199254740993\<close> is not the value of its digits.
\<close>

theorem site_names_from_trailing_integer_counterexample:
  "startingSiteName exampleLargeAnswers = ''site9007199254740992''
   \<and> siteNames 9007199254740992 2 = [''site9007199254740992'', ''site9007199254740993'']
   \<and> fst (generateProjects exampleEnv exampleSite exampleLargeAnswers) = Inl ProjectExists
   \<and> map projectName (generatedSites (snd (generateProjects exampleEnv exampleSite exampleLargeAnswers)))
       = [''site9007199254740992'']
   \<and> decimalValue ''9007199254740993'' = 9007199254740993
   \<and> extractSiteNumber ''site9007199254740993'' = Inr (Finite 9007199254740992)"
proof -
  have 1: "startingSiteName exampleLargeAnswers = ''site9007199254740992''"
    by (simp add: exampleLargeAnswers_def)
  have 2: "siteNames 9007199254740992 2 = [''site9007199254740992'', ''site9007199254740993'']"
    by (simp add: siteNames_def decimal_def digitsOf.simps upt_conv_Cons)
  have 3: "decimalValue ''9007199254740993'' = 9007199254740993"
    by (simp add: decimalValue_def digitValue_def)
  have 4: "extractSiteNumber ''site9007199254740993'' = Inr (Finite 9007199254740992)"
    by (simp add: extractSiteNumber_def trailingDigits_def isDigit_def parseInt_def
        decimalValue_def digitValue_def toNumber_above)
  show ?thesis
    using 1 2 3 4 generateProjects_large by blast
qed

subsection \<open>Rewriting the site configuration\<close>

lemma splitFirst_Some_decomp:
  "splitFirst pat s = Some (front, rear) \<Longrightarrow> s = front @ pat @ rear"
proof (induction s arbitrary: front rear)
  case Nil
  then show ?case by (simp split: if_splits)
next
  case (Cons c cs)
  show ?case
  proof (cases "prefix pat (c # cs)")
    case True
    have fr: "front = []" "rear = drop (length pat) (c # cs)"
      using Cons.prems True by simp_all
    obtain zs where zs: "c # cs = pat @ zs"
      using True by (auto simp add: prefix_def)
    have "drop (length pat) (c # cs) = zs"
      by (simp only: zs) simp
    then show ?thesis
      using fr zs by simp
  next
    case False
    then obtain f where "splitFirst pat cs = Some (f, rear)" "front = c # f"
      using Cons.prems by (auto split: option.splits)
    then show ?thesis
      using Cons.IH by simp
  qed
qed

lemma splitFirst_Some_first:
  "splitFirst pat s = Some (front, rear) \<Longrightarrow> s = f @ pat @ b \<Longrightarrow> length front \<le> length f"
proof (induction s arbitrary: front rear f b)
  case Nil
  then show ?case by (simp split: if_splits)
next
  case (Cons c cs)
  show ?case
  proof (cases "prefix pat (c # cs)")
    case True
    have "front = []"
      using Cons.prems(1) True by simp
    then show ?thesis
      by simp
  next
    case False
    then obtain f0 where f0: "splitFirst pat cs = Some (f0, rear)" "front = c # f0"
      using Cons.prems(1) by (auto split: option.splits)
    have "f \<noteq> []"
      using False Cons.prems(2) by (auto simp add: prefix_def)
    then obtain f1 where f1: "f = c # f1" "cs = f1 @ pat @ b"
      using Cons.prems(2) by (cases f) auto
    show ?thesis
      using Cons.IH [OF f0(1) f1(2)] f0(2) f1(1) by simp
  qed
qed

lemma splitFirst_None:
  "splitFirst pat s = None \<Longrightarrow> s \<noteq> f @ pat @ b"
proof (induction s arbitrary: f b)
  case Nil
  then show ?case by (simp split: if_splits)
next
  case (Cons c cs)
  have np: "\<not> prefix pat (c # cs)"
    using Cons.prems by (auto split: if_splits)
  have rest: "splitFirst pat cs = None"
    using Cons.prems np by (auto split: option.splits)
  show ?case
  proof
    assume eq: "c # cs = f @ pat @ b"
    show False
    proof (cases f)
      case Nil
      then show ?thesis using eq np by (auto simp add: prefix_def)
    next
      case (Cons x f1)
      then have "cs = f1 @ pat @ b" using eq by simp
      then show ?thesis using Cons.IH [OF rest] by blast
    qed
  qed
qed

lemma splitFirst_eq:
  assumes "s = front @ pat @ rear"
    and "\<And>f b. s = f @ pat @ b \<Longrightarrow> length front \<le> length f"
  shows "splitFirst pat s = Some (front, rear)"
proof (cases "splitFirst pat s")
  case None
  then show ?thesis
    using splitFirst_None assms(1) by blast
next
  case (Some r)
  obtain f0 b0 where r: "r = (f0, b0)" by (cases r)
  have d: "s = f0 @ pat @ b0"
    using splitFirst_Some_decomp Some r by blast
  have "length f0 \<le> length front"
    using splitFirst_Some_first [of pat s f0 b0 front rear] Some r assms(1) by simp
  moreover have "length front \<le> length f0"
    using assms(2) d by blast
  ultimately have "length f0 = length front" by simp
  then have "f0 = front \<and> b0 = rear"
    using d assms(1) by auto
  then show ?thesis
    using Some r by simp
qed

lemma getSubstitution_plain:
  "CHR ''$'' \<notin> set t \<Longrightarrow> getSubstitution m f b t = t"
  by (induction m f b t rule: getSubstitution.induct) auto

lemma matchSite_None_iff:
  "matchSite content = None \<longleftrightarrow>
     \<not> (\<exists>front body rear. content = front @ siteOpen @ body @ siteClose @ rear)"
proof
  assume n: "matchSite content = None"
  show "\<not> (\<exists>front body rear. content = front @ siteOpen @ body @ siteClose @ rear)"
  proof
    assume "\<exists>front body rear. content = front @ siteOpen @ body @ siteClose @ rear"
    then obtain front body rear where c: "content = front @ siteOpen @ body @ siteClose @ rear"
      by blast
    have "splitFirst siteOpen content \<noteq> None"
    proof
      assume "splitFirst siteOpen content = None"
      from splitFirst_None [OF this, of front "body @ siteClose @ rear"] c
      show False by simp
    qed
    then obtain r where r: "splitFirst siteOpen content = Some r"
      by blast
    obtain f0 opened where "r = (f0, opened)"
      by (cases r)
    then have s1: "splitFirst siteOpen content = Some (f0, opened)"
      using r by simp
    have d: "content = f0 @ siteOpen @ opened"
      using splitFirst_Some_decomp [OF s1] .
    have le: "length f0 \<le> length front"
      using splitFirst_Some_first [OF s1 c] .
    have s2: "splitFirst siteClose opened = None"
      using n s1 by (auto simp add: matchSite_def split: option.splits)
    have "drop (length f0 + length siteOpen) content = opened"
      using d by simp
    moreover have "drop (length f0 + length siteOpen) content
        = drop (length f0 + length siteOpen) (front @ siteOpen) @ body @ siteClose @ rear"
      using c le by simp
    ultimately have "opened = (drop (length f0 + length siteOpen) (front @ siteOpen) @ body) @ siteClose @ rear"
      by simp
    then show False
      using splitFirst_None [OF s2] by blast
  qed
next
  assume no: "\<not> (\<exists>front body rear. content = front @ siteOpen @ body @ siteClose @ rear)"
  show "matchSite content = None"
  proof (rule ccontr)
    assume "matchSite content \<noteq> None"
    then obtain f0 opened body rear where
      "splitFirst siteOpen content = Some (f0, opened)" "splitFirst siteClose opened = Some (body, rear)"
      by (auto simp add: matchSite_def split: option.splits)
    then have "content = f0 @ siteOpen @ body @ siteClose @ rear"
      using splitFirst_Some_decomp by blast
    then show False using no by blast
  qed
qed

lemma matchSite_block:
  assumes "content = front @ siteOpen @ body @ siteClose @ rear"
    and "\<And>f b. content = f @ siteOpen @ b \<Longrightarrow> length front \<le> length f"
    and "\<And>f b. body @ siteClose @ rear = f @ siteClose @ b \<Longrightarrow> length body \<le> length f"
  shows "matchSite content = Some (front, siteOpen @ body @ siteClose, rear)"
proof -
  have 1: "splitFirst siteOpen content = Some (front, body @ siteClose @ rear)"
  proof (rule splitFirst_eq)
    show "content = front @ siteOpen @ body @ siteClose @ rear"
      by (rule assms(1))
    show "length front \<le> length f" if "content = f @ siteOpen @ b" for f b
      using that by (rule assms(2))
  qed
  have 2: "splitFirst siteClose (body @ siteClose @ rear) = Some (body, rear)"
  proof (rule splitFirst_eq)
    show "body @ siteClose @ rear = body @ siteClose @ rear"
      by (rule refl)
    show "length body \<le> length f" if "body @ siteClose @ rear = f @ siteClose @ b" for f b
      using that by (rule assms(3))
  qed
  show ?thesis
    by (simp add: matchSite_def 1 2)
qed

lemma newSiteObject_fields: "newSiteObject t d = siteBlock (siteFields t d)"
  by (simp add: newSiteObject_def siteBlock_def siteFields_def fieldLine_def quoted_def
      siteOpen_def siteClose_def)

lemma hexDigit_plain: "hexDigit n \<noteq> CHR ''$''"
proof -
  have "hexDigit n \<in> set ''0123456789abcdef''"
    unfolding hexDigit_def by (rule nth_mem) simp
  then show ?thesis by auto
qed

lemma quoteJsonChar_plain: "c \<noteq> CHR ''$'' \<Longrightarrow> CHR ''$'' \<notin> set (quoteJsonChar c)"
  using hexDigit_plain [of "of_char c div 16", symmetric] hexDigit_plain [of "of_char c", symmetric]
  by (auto simp add: quoteJsonChar_def)

lemma quoteJson_plain:
  assumes "CHR ''$'' \<notin> set s"
  shows "CHR ''$'' \<notin> set (quoteJson s)"
proof -
  have 1: "CHR ''$'' \<notin> set (quoteJsonChar c)" if "c \<in> set s" for c
  proof (rule quoteJsonChar_plain)
    show "c \<noteq> CHR ''$''" using that assms by blast
  qed
  have 2: "set (concat (map quoteJsonChar s)) = (\<Union>c \<in> set s. set (quoteJsonChar c))"
    by simp
  have "CHR ''$'' \<notin> set (concat (map quoteJsonChar s))"
    unfolding 2 using 1 by blast
  then show ?thesis
    by (simp add: quoteJson_def)
qed

lemma joinWith_plain:
  "x \<notin> set sep \<Longrightarrow> \<forall>s \<in> set ss. x \<notin> set s \<Longrightarrow> x \<notin> set (joinWith sep ss)"
  by (induction sep ss rule: joinWith.induct) auto

lemma stringifyStrings_plain:
  assumes "\<forall>k \<in> set ks. CHR ''$'' \<notin> set k"
  shows "CHR ''$'' \<notin> set (stringifyStrings ks)"
proof -
  have "\<forall>q \<in> set (map quoteJson ks). CHR ''$'' \<notin> set q"
  proof
    fix q
    assume "q \<in> set (map quoteJson ks)"
    then obtain k where k: "k \<in> set ks" "q = quoteJson k"
      by (auto simp only: set_map)
    have "CHR ''$'' \<notin> set k"
      using assms k(1) by blast
    then show "CHR ''$'' \<notin> set q"
      unfolding k(2) by (rule quoteJson_plain)
  qed
  moreover have "CHR ''$'' \<notin> set '',''"
    by simp
  ultimately have "CHR ''$'' \<notin> set (joinWith '','' (map quoteJson ks))"
    by (intro joinWith_plain)
  then show ?thesis
    by (simp add: stringifyStrings_def)
qed

lemma newSiteObject_plain:
  assumes "plainTemplate t" "CHR ''$'' \<notin> set d"
  shows "CHR ''$'' \<notin> set (newSiteObject t d)"
  using assms stringifyStrings_plain [of "keywords' t"]
  by (simp add: newSiteObject_def plainTemplate_def)

lemma plainTemplate_config: "plainTemplate (siteTemplate config)"
  by (simp add: plainTemplate_def config_def)

text \<open>
  Claim C8. Let the site-configuration file of the project contain the block
  \<open>const site = {\<dots>};\<close> that the regular expression matches: it starts at the first
  \<open>const site = {\<close> of the file and ends at the first \<open>};\<close> after it. For a domain and a
  configured template without the character \<open>$\<close> (it has a meaning in a replacement
  text, and no domain name contains it), \<open>updateSiteConfig\<close> writes the file with this
  block replaced by the block of \<open>siteFields\<close>: \<open>name\<close> is the domain, \<open>url\<close> is
  \<open>https://<domain>\<close>, \<open>author\<close> is \<open><domain> Team\<close>, \<open>title\<close>, \<open>description\<close>, \<open>keywords\<close>
  and \<open>language\<close> come from the configured template, and \<open>logo\<close>, \<open>favicon\<close>,
  \<open>twitterCard\<close> and \<open>ogImage\<close> are fixed paths. The text around the block stays.
\<close>

theorem updateSiteConfig_block:
  assumes "files w (projectPath @ [''data'', ''site-config.js'']) = Some (File content)"
    and "content = front @ siteOpen @ body @ siteClose @ rear"
    and "\<forall>f b. content = f @ siteOpen @ b \<longrightarrow> length front \<le> length f"
    and "\<forall>f b. body @ siteClose @ rear = f @ siteClose @ b \<longrightarrow> length body \<le> length f"
    and "plainTemplate (siteTemplate (conf e))"
    and "CHR ''$'' \<notin> set newDomain"
  shows "updateSiteConfig e w projectPath name newDomain
           = Inr (w\<lparr>files := (files w)(projectPath @ [''data'', ''site-config.js''] \<mapsto>
                   File (front @ siteBlock (siteFields (siteTemplate (conf e)) newDomain) @ rear))\<rparr>)"
proof -
  have m: "matchSite content = Some (front, siteOpen @ body @ siteClose, rear)"
    using assms(2,3,4) by (intro matchSite_block) blast+
  have "getSubstitution (siteOpen @ body @ siteClose) front rear
          (newSiteObject (siteTemplate (conf e)) newDomain)
        = newSiteObject (siteTemplate (conf e)) newDomain"
    using assms(5,6) by (intro getSubstitution_plain newSiteObject_plain)
  then have "replaceSite content (newSiteObject (siteTemplate (conf e)) newDomain)
      = front @ siteBlock (siteFields (siteTemplate (conf e)) newDomain) @ rear"
    using m by (simp add: replaceSite_def newSiteObject_fields)
  then show ?thesis
    using assms(1) by (simp add: updateSiteConfig_def)
qed

theorem updateSiteConfig_block_witness:
  \<open>files exampleSite ([''ws'', ''site31''] @ [''data'', ''site-config.js'']) = Some (File exampleConfigText)
   \<and> exampleConfigText = ''// old\<newline>'' @ siteOpen @ '' "name": "old" '' @ siteClose @ ''\<newline>export default site;''
   \<and> splitFirst siteOpen exampleConfigText
       = Some (''// old\<newline>'', '' "name": "old" '' @ siteClose @ ''\<newline>export default site;'')
   \<and> splitFirst siteClose ('' "name": "old" '' @ siteClose @ ''\<newline>export default site;'')
       = Some ('' "name": "old" '', ''\<newline>export default site;'')
   \<and> plainTemplate (siteTemplate (conf exampleEnv))
   \<and> CHR ''$'' \<notin> set ''aho.game92.vip''
   \<and> updateSiteConfig exampleEnv exampleSite [''ws'', ''site31''] ''site31'' ''aho.game92.vip''
       = Inr (exampleSite\<lparr>files := (files exampleSite)([''ws'', ''site31''] @ [''data'', ''site-config.js''] \<mapsto>
           File (''// old\<newline>''
                 @ siteBlock (siteFields (siteTemplate (conf exampleEnv)) ''aho.game92.vip'')
                 @ ''\<newline>export default site;''))\<rparr>)\<close>
proof -
  have h1: "files exampleSite ([''ws'', ''site31''] @ [''data'', ''site-config.js''])
      = Some (File exampleConfigText)"
    by (simp add: exampleSite_def)
  have h2: \<open>exampleConfigText
      = ''// old\<newline>'' @ siteOpen @ '' "name": "old" '' @ siteClose @ ''\<newline>export default site;''\<close>
    by (simp add: exampleConfigText_def siteOpen_def siteClose_def)
  have s1: \<open>splitFirst siteOpen exampleConfigText
      = Some (''// old\<newline>'', '' "name": "old" '' @ siteClose @ ''\<newline>export default site;'')\<close>
    by (simp add: exampleConfigText_def siteOpen_def siteClose_def)
  have s2: \<open>splitFirst siteClose ('' "name": "old" '' @ siteClose @ ''\<newline>export default site;'')
      = Some ('' "name": "old" '', ''\<newline>export default site;'')\<close>
    by (simp add: siteClose_def)
  have h3: "\<forall>f b. exampleConfigText = f @ siteOpen @ b \<longrightarrow> length ''// old\<newline>'' \<le> length f"
    using splitFirst_Some_first [OF s1] by blast
  have h4: \<open>\<forall>f b. '' "name": "old" '' @ siteClose @ ''\<newline>export default site;'' = f @ siteClose @ b
          \<longrightarrow> length '' "name": "old" '' \<le> length f\<close>
    using splitFirst_Some_first [OF s2] by blast
  have h5: "plainTemplate (siteTemplate (conf exampleEnv))"
    by (simp add: exampleEnv_def plainTemplate_config)
  have h6: "CHR ''$'' \<notin> set ''aho.game92.vip''"
    by simp
  show ?thesis
    using updateSiteConfig_block [OF h1 h2 h3 h4 h5 h6, of "''site31''"] h1 h2 s1 s2 h5 h6
    by blast
qed

text \<open>The block for the configuration of the repository and the domain \<open>aho.game92.vip\<close>.\<close>

lemma siteBlock_config:
  \<open>siteBlock (siteFields (siteTemplate config) ''aho.game92.vip'') =
     ''const site = {\<newline>'' @
     ''  "name": "aho.game92.vip",\<newline>'' @
     ''  "title": "game92 Games - Online HTML5 Games Platform",\<newline>'' @
     ''  "description": "Discover endless entertainment with our collection of premium HTML5 games. Play instantly in your browser - featuring mind-bending puzzles, thrilling adventures, strategic challenges, and fast-paced action games for all ages.",\<newline>'' @
     ''  "logo": "/images/logo.png",\<newline>'' @
     ''  "favicon": "/favicon.ico",\<newline>'' @
     ''  "keywords": ["Web Games","Interactive Entertainment","Instant Play Games","Cross-Platform Gaming","Educational Games","Multiplayer Games","Retro Games","Mobile-Friendly Games","Gaming Portal","Flash Alternative"],\<newline>'' @
     ''  "author": "aho.game92.vip Team",\<newline>'' @
     ''  "language": "en",\<newline>'' @
     ''  "url": "https://aho.game92.vip",\<newline>'' @
     ''  "twitterCard": "/images/summary_large_image.png",\<newline>'' @
     ''  "ogImage": "/images/og-image.png",\<newline>'' @
     ''};''\<close>
  by (simp add: siteBlock_def siteFields_def fieldLine_def quoted_def siteOpen_def siteClose_def
      config_def stringifyStrings_def quoteJson_def quoteJsonChar_def)

text \<open>
  Claim C9. When the site-configuration file of the project has no text of the form
  \<open>const site = {\<dots>};\<close>, \<open>updateSiteConfig\<close> raises no error and writes the file back
  with the content it had: the state after the call is the state before it.
\<close>

theorem updateSiteConfig_without_block:
  assumes "files w (projectPath @ [''data'', ''site-config.js'']) = Some (File content)"
    and "\<not> (\<exists>front body rear. content = front @ siteOpen @ body @ siteClose @ rear)"
  shows "updateSiteConfig e w projectPath name newDomain
           = Inr (w\<lparr>files := (files w)(projectPath @ [''data'', ''site-config.js''] \<mapsto> File content)\<rparr>)
       \<and> w\<lparr>files := (files w)(projectPath @ [''data'', ''site-config.js''] \<mapsto> File content)\<rparr> = w"
proof -
  have "matchSite content = None"
    using assms(2) matchSite_None_iff by blast
  then have "replaceSite content (newSiteObject (siteTemplate (conf e)) newDomain) = content"
    by (simp add: replaceSite_def)
  moreover have "(files w)(projectPath @ [''data'', ''site-config.js''] \<mapsto> File content) = files w"
    using assms(1) by (simp add: map_upd_triv)
  ultimately show ?thesis
    using assms(1) by (simp add: updateSiteConfig_def)
qed

theorem updateSiteConfig_without_block_witness:
  "files exampleBare ([''ws'', ''site7''] @ [''data'', ''site-config.js'']) = Some (File ''export default {};'')
   \<and> \<not> (\<exists>front body rear. ''export default {};'' = front @ siteOpen @ body @ siteClose @ rear)
   \<and> updateSiteConfig exampleEnv exampleBare [''ws'', ''site7''] ''site7'' ''game92.vip'' = Inr exampleBare"
proof -
  have h1: "files exampleBare ([''ws'', ''site7''] @ [''data'', ''site-config.js''])
      = Some (File ''export default {};'')"
    by (simp add: exampleBare_def)
  have "matchSite ''export default {};'' = None"
    by (simp add: matchSite_def siteOpen_def)
  then have h2: "\<not> (\<exists>front body rear. ''export default {};'' = front @ siteOpen @ body @ siteClose @ rear)"
    using matchSite_None_iff by blast
  show ?thesis
    using updateSiteConfig_without_block [OF h1 h2, of exampleEnv "''site7''" "''game92.vip''"] h1 h2
    by simp
qed

subsection \<open>Too few eligible games\<close>

lemma planCounts_set:
  assumes "unitInterval rnd" "planCounts rnd k lo hi n = Inr (pc, k')"
  shows "set pc = {lo..hi}"
proof -
  have "shuffle rnd k [lo..hi] = (pc, k')"
    using assms(2) by (simp add: planCounts_def split: if_splits)
  then have "mset pc = mset [lo..hi]"
    using shuffle_mset [OF assms(1), of k "[lo..hi]"] by simp
  then show ?thesis
    using mset_eq_setD by fastforce
qed

lemma countAt_mem: "countAt pc i = Some c \<Longrightarrow> c \<in> set pc"
  by (auto simp add: countAt_def split: if_splits)

lemma checkTemplate_insufficient:
  assumes "findTemplatePath w (workspaceRoot e) (templateName a) = Some found"
    and "readJson e w (found @ [''data'', ''games.json'']) = Inr gd"
    and "html5GamesOf gd = Inr eligible"
    and "int (length eligible) < gamesMax a"
  shows "checkTemplate e w a = Inl InsufficientEligibleGames"
  using assms by (simp add: checkTemplate_def)

lemma checkTemplate_success:
  assumes "checkTemplate e w a = Inr a'"
  shows "\<exists>gd eligible.
           readJson e w (templatePath a' @ [''data'', ''games.json'']) = Inr gd
         \<and> html5GamesOf gd = Inr eligible
         \<and> gamesMin a' = gamesMin a \<and> gamesMax a' = gamesMax a
         \<and> gamesMax a' \<le> int (length eligible)"
  using assms
  by (auto simp add: checkTemplate_def split: option.splits sum.splits if_splits)

lemma example_find:
  "findTemplatePath exampleSite (workspaceRoot exampleEnv) (templateName a) = Some [''ws'', ''site31'']"
  if "templateName a = ''site31''"
  using that
  by (simp add: findTemplatePath_def joinPath_site31 eval_nat_numeral pathExists_def exampleSite_def
      exampleEnv_def)

lemma example_read:
  "readJson exampleEnv exampleSite ([''ws'', ''site31''] @ [''data'', ''games.json'']) = Inr exampleGames"
  by (simp add: readJson_def exampleEnv_def exampleSite_def)

lemma example_html5:
  "html5GamesOf exampleGames
     = Inr [\<lparr>tags = Some [''html5'', ''puzzle''], payload = ''A''\<rparr>,
            \<lparr>tags = Some [''html5''], payload = ''D''\<rparr>,
            \<lparr>tags = Some [''action'', ''html5''], payload = ''E''\<rparr>]"
  by (simp add: html5GamesOf_def exampleGames_def exampleCatalog_def isHtml5_def)

lemma example_validate:
  "validateTemplateProject exampleSite [''ws'', ''site31''] = Inr ()"
  by (simp add: validateTemplateProject_def requiredFiles_def pathExists_def exampleSite_def)

lemma example_prompt:
  "promptStartingSiteName exampleSite (workspaceRoot exampleEnv)
     (length (domains (conf exampleEnv)) * (1 + subdomainCount exampleAnswers))
     [''site31'', ''mysite007''] = Some (Inr ''mysite007'')"
  by (simp add: validateProjectNames_def validateLoop.simps extractSiteNumber_def trailingDigits_def
      isDigit_def parseInt_def decimalValue_def digitValue_def toNumber_exact addNumber_def
      numToString_exact decimal_def digitsOf.simps pathExists_def
      exampleSite_def exampleEnv_def exampleAnswers_def config_def)

text \<open>
  Claim C2. Let the user have entered a starting name without conflicts, let the template
  be found and its catalog be read, with \<open>eligible\<close> the games tagged \<open>html5\<close>. If these
  are fewer than \<open>gamesMax\<close>, the run ends with \<open>InsufficientEligibleGames\<close> in the state
  in which it began: nothing has been created. And when \<open>getUserInput\<close> returns answers,
  the template has at least \<open>gamesMax\<close> such games, so that no count which the plan hands
  to a project exceeds their number.
\<close>

theorem insufficient_games_abort:
  "(promptStartingSiteName w (workspaceRoot e)
        (length (domains (conf e)) * (1 + subdomainCount a)) typedNames = Some (Inr name)
      \<longrightarrow> findTemplatePath w (workspaceRoot e) (templateName a) = Some found
      \<longrightarrow> readJson e w (found @ [''data'', ''games.json'']) = Inr gd
      \<longrightarrow> html5GamesOf gd = Inr eligible
      \<longrightarrow> int (length eligible) < gamesMax a
      \<longrightarrow> start e w a typedNames = Some (Inl InsufficientEligibleGames, w))
   \<and> (getUserInput e w a typedNames = Some (Inr a')
      \<longrightarrow> (\<exists>catalog html5Games.
             readJson e w (templatePath a' @ [''data'', ''games.json'']) = Inr catalog
           \<and> html5GamesOf catalog = Inr html5Games
           \<and> gamesMax a' \<le> int (length html5Games)
           \<and> (\<forall>rnd k n pc k' i c.
                 unitInterval rnd
                 \<longrightarrow> planCounts rnd k (gamesMin a') (gamesMax a') n = Inr (pc, k')
                 \<longrightarrow> countAt pc i = Some c
                 \<longrightarrow> c \<le> int (length html5Games))))"
proof (intro conjI impI)
  assume p: "promptStartingSiteName w (workspaceRoot e)
        (length (domains (conf e)) * (1 + subdomainCount a)) typedNames = Some (Inr name)"
    and f: "findTemplatePath w (workspaceRoot e) (templateName a) = Some found"
    and r: "readJson e w (found @ [''data'', ''games.json'']) = Inr gd"
    and h: "html5GamesOf gd = Inr eligible"
    and l: "int (length eligible) < gamesMax a"
  have "checkTemplate e w (a\<lparr>startingSiteName := name\<rparr>) = Inl InsufficientEligibleGames"
    using f r h l by (intro checkTemplate_insufficient [where found = found and gd = gd and eligible = eligible]) simp_all
  then have "getUserInput e w a typedNames = Some (Inl InsufficientEligibleGames)"
    using p by (simp add: getUserInput_def)
  then show "start e w a typedNames = Some (Inl InsufficientEligibleGames, w)"
    by (simp add: start_def)
next
  assume g: "getUserInput e w a typedNames = Some (Inr a')"
  then obtain name where "checkTemplate e w (a\<lparr>startingSiteName := name\<rparr>) = Inr a'"
    by (auto simp add: getUserInput_def Let_def split: option.splits sum.splits)
  then obtain catalog html5Games where c:
    "readJson e w (templatePath a' @ [''data'', ''games.json'']) = Inr catalog"
    "html5GamesOf catalog = Inr html5Games"
    "gamesMax a' \<le> int (length html5Games)"
    using checkTemplate_success by blast
  have "c \<le> int (length html5Games)"
    if "unitInterval rnd" "planCounts rnd k (gamesMin a') (gamesMax a') n = Inr (pc, k')"
      "countAt pc i = Some c" for rnd k n pc k' i c
  proof -
    have "c \<in> {gamesMin a'..gamesMax a'}"
      using planCounts_set [OF that(1,2)] countAt_mem [OF that(3)] by simp
    then show ?thesis
      using c(3) by simp
  qed
  then show "\<exists>catalog html5Games.
             readJson e w (templatePath a' @ [''data'', ''games.json'']) = Inr catalog
           \<and> html5GamesOf catalog = Inr html5Games
           \<and> gamesMax a' \<le> int (length html5Games)
           \<and> (\<forall>rnd k n pc k' i c.
                 unitInterval rnd
                 \<longrightarrow> planCounts rnd k (gamesMin a') (gamesMax a') n = Inr (pc, k')
                 \<longrightarrow> countAt pc i = Some c
                 \<longrightarrow> c \<le> int (length html5Games))"
    using c by blast
qed

theorem insufficient_games_abort_witness:
  "start exampleEnv exampleSite (exampleAnswers\<lparr>gamesMax := 5\<rparr>) [''site31'', ''mysite007'']
     = Some (Inl InsufficientEligibleGames, exampleSite)
   \<and> getUserInput exampleEnv exampleSite exampleAnswers [''site31'', ''mysite007'']
       = Some (Inr exampleAnswers)
   \<and> (\<exists>catalog html5Games.
         readJson exampleEnv exampleSite (templatePath exampleAnswers @ [''data'', ''games.json''])
           = Inr catalog
       \<and> html5GamesOf catalog = Inr html5Games
       \<and> gamesMax exampleAnswers \<le> int (length html5Games)
       \<and> (\<forall>rnd k n pc k' i c.
             unitInterval rnd
             \<longrightarrow> planCounts rnd k (gamesMin exampleAnswers) (gamesMax exampleAnswers) n = Inr (pc, k')
             \<longrightarrow> countAt pc i = Some c
             \<longrightarrow> c \<le> int (length html5Games)))"
proof -
  let ?few = "exampleAnswers\<lparr>gamesMax := 5\<rparr>"
  have p: "promptStartingSiteName exampleSite (workspaceRoot exampleEnv)
        (length (domains (conf exampleEnv)) * (1 + subdomainCount ?few))
        [''site31'', ''mysite007''] = Some (Inr ''mysite007'')"
    using example_prompt by simp
  have f: "findTemplatePath exampleSite (workspaceRoot exampleEnv) (templateName ?few)
      = Some [''ws'', ''site31'']"
    by (rule example_find) (simp add: exampleAnswers_def)
  have l: "int (length [\<lparr>tags = Some [''html5'', ''puzzle''], payload = ''A''\<rparr>,
            \<lparr>tags = Some [''html5''], payload = ''D''\<rparr>,
            \<lparr>tags = Some [''action'', ''html5''], payload = ''E''\<rparr>]) < gamesMax ?few"
    by simp
  have 1: "start exampleEnv exampleSite ?few [''site31'', ''mysite007'']
      = Some (Inl InsufficientEligibleGames, exampleSite)"
    using insufficient_games_abort [where e = exampleEnv and w = exampleSite and a = ?few
        and typedNames = "[''site31'', ''mysite007'']" and name = "''mysite007''"
        and found = "[''ws'', ''site31'']" and gd = exampleGames] p f example_read example_html5 l
    by blast
  have f2: "findTemplatePath exampleSite (workspaceRoot exampleEnv) (templateName exampleAnswers)
      = Some [''ws'', ''site31'']"
    by (rule example_find) (simp add: exampleAnswers_def)
  have r2: "readJson exampleEnv exampleSite [''ws'', ''site31'', ''data'', ''games.json''] = Inr exampleGames"
    using example_read by simp
  have g: "gamesMax exampleAnswers = 3"
    by (simp add: exampleAnswers_def)
  have same: "exampleAnswers\<lparr>startingSiteName := ''mysite007'', templatePath := [''ws'', ''site31'']\<rparr>
      = exampleAnswers"
    by (simp add: exampleAnswers_def)
  have "checkTemplate exampleEnv exampleSite (exampleAnswers\<lparr>startingSiteName := ''mysite007''\<rparr>)
      = Inr exampleAnswers"
    by (simp add: checkTemplate_def f2 r2 example_html5 example_validate g same)
  then have 2: "getUserInput exampleEnv exampleSite exampleAnswers [''site31'', ''mysite007'']
      = Some (Inr exampleAnswers)"
    using example_prompt by (simp add: getUserInput_def)
  show ?thesis
    using insufficient_games_abort [where e = exampleEnv and w = exampleSite and a = exampleAnswers
        and typedNames = "[''site31'', ''mysite007'']" and a' = exampleAnswers] 1 2
    by blast
qed

subsection \<open>What a run hands to the projects\<close>

text \<open>
  The domains planned from base domains without the character \<open>$\<close>, as those of the
  repository's configuration, do not contain it; and the counts planned from a range that
  the prompt accepts (\<open>gamesMin \<ge> 1\<close>) are positive.
\<close>

lemma expand_plain:
  assumes "\<forall>b \<in> set ds. x \<notin> set b" and "\<forall>ps \<in> set pss. \<forall>p \<in> set ps. x \<notin> set p"
    and "x \<noteq> CHR ''.''"
  shows "\<forall>d \<in> set (expand ds pss). x \<notin> set d"
proof
  fix d
  assume "d \<in> set (expand ds pss)"
  then obtain b ps where z: "(b, ps) \<in> set (zip ds pss)"
    and d: "d = b \<or> (\<exists>p \<in> set ps. d = p @ ''.'' @ b)"
    by (auto simp add: expand_def)
  have b: "x \<notin> set b"
    using assms(1) set_zip_leftD [OF z] by blast
  have ps: "\<forall>p \<in> set ps. x \<notin> set p"
    using assms(2) set_zip_rightD [OF z] by blast
  show "x \<notin> set d"
    using d b ps assms(3) by auto
qed

lemma planned_domains_plain:
  assumes "unitInterval rnd" and "\<forall>b \<in> set ds. CHR ''$'' \<notin> set b"
    and "d \<in> set (fst (planDomains rnd k ds sc pl))"
  shows "CHR ''$'' \<notin> set d"
proof -
  obtain pss k' where p: "domainLoop rnd k ds sc pl [] = ([] @ expand ds pss, k')"
    "\<forall>ps \<in> set pss. randomPrefixes sc pl ps"
    using domainLoop_spec [OF assms(1), of k ds sc pl "[]"] by blast
  have "CHR ''$'' \<notin> set chars"
    by (simp add: chars_def)
  then have "\<forall>ps \<in> set pss. \<forall>q \<in> set ps. CHR ''$'' \<notin> set q"
    using p(2) by (auto simp add: randomPrefixes_def)
  then have "\<forall>d \<in> set (expand ds pss). CHR ''$'' \<notin> set d"
    using assms(2) by (intro expand_plain) simp_all
  then show ?thesis
    using assms(3) p(1) by (simp add: planDomains_def)
qed

lemma config_domains_plain: "\<forall>b \<in> set (domains config). CHR ''$'' \<notin> set b"
  by (simp add: config_def)

lemma planned_counts_positive:
  assumes "unitInterval rnd" and "1 \<le> lo" and "planCounts rnd k lo hi n = Inr (pc, k')"
    and "countAt pc i = Some c"
  shows "1 \<le> c"
  using planCounts_set [OF assms(1,3)] countAt_mem [OF assms(4)] assms(2) by simp

end
